(* ===== verification/Prelude.thy ===== *)
theory Prelude
  imports Main "HOL-Library.Sublist"
begin

text \<open>
  Shared vocabulary of the webfetch development. Go's \<open>[]byte\<close> and \<open>string\<close> are
  both byte sequences; Isabelle's \<open>char\<close> is a byte, so both are modelled as
  \<open>string\<close> (\<open>char list\<close>). A Go \<open>error\<close> is its message, a \<open>string\<close>.
  The collection \<open>frame_simps\<close> gathers the facts that say which parts of the
  world an operation leaves alone; the component theories add to it.
\<close>

type_synonym bytes = string
type_synonym errmsg = string

text \<open>The status a process ends with: \<open>os.Exit(c)\<close>, or 0 when \<open>main\<close> returns.\<close>

type_synonym exit_code = nat

named_theorems frame_simps "operations that leave a part of the world unchanged"

text \<open>
  Go's \<open>s[:i]\<close> and \<open>s[i:]\<close> are \<open>take i s\<close> and \<open>drop i s\<close> when \<open>i \<le> len(s)\<close>;
  Go panics beyond the length, so every slice in the model is guarded by the same
  bound the code has.
\<close>

lemma drop_take_append_eq:
  "n \<le> length p \<Longrightarrow> xs @ take n p @ drop n p = xs @ p"
  by simp

lemma length_drop_less:
  "0 < n \<Longrightarrow> p \<noteq> [] \<Longrightarrow> length (drop n p) < length p"
  by simp

lemma min_less_length_iff [simp]:
  "(min r (length p) < length p) = (r < length p)"
  by (simp add: min_def)

lemma sum_case_Inl_Inr_eq [simp]:
  "(case x of Inl a \<Rightarrow> Inl a | Inr b \<Rightarrow> Inr b) = x"
  by (cases x) simp_all

end
