(* ===== verification/World.thy ===== *)
theory World
  imports Prelude
begin

text \<open>
  The environment webfetch runs in: standard output and standard error, a file
  system, the network, and the bookkeeping that lets a theorem observe the
  program's effects (the requests it sent, the response bodies it left open). The
  operating system calls the program reaches through Go's standard library are
  functions on this state: \<open>os_write\<close> is write(2) on a descriptor (Go's
  \<open>(*os.File).Write\<close>, which retries until everything is written or an error
  occurs), \<open>println\<close> is \<open>fmt.Println\<close>/\<open>fmt.Printf\<close> to \<open>os.Stdout\<close> (one write,
  result ignored), \<open>os_stat\<close> and \<open>os_create\<close> are \<open>os.Stat\<close> and \<open>os.Create\<close>
  (\<open>O_RDWR|O_CREATE|O_TRUNC\<close>). A destination that runs out of room (a full disk,
  or standard output redirected to a full device) accepts a prefix of a write and
  reports the error, as write(2) does with \<open>ENOSPC\<close>. A closed pipe on standard
  output is not modelled: there Go's runtime raises \<open>SIGPIPE\<close> and the process
  dies instead of seeing an error.
\<close>

datatype dest = Stdout | OutFile string

datatype node = RegFile bytes | Dir

text \<open>What the server at a URL does when the program asks for it.\<close>

datatype response =
    Refused errmsg
  | Served bytes
  | Truncated bytes errmsg

record world =
  stdout :: bytes
  stderr :: bytes
  fs :: "string \<rightharpoonup> node"
  locked :: "string set"
  stdout_room :: "nat option"
  disk_room :: "nat option"
  net :: "string \<Rightarrow> response"
  requests :: "string list"
  open_bodies :: nat

definition room_of :: "dest \<Rightarrow> world \<Rightarrow> nat option" where
  "room_of d w = (case d of Stdout \<Rightarrow> stdout_room w | OutFile _ \<Rightarrow> disk_room w)"

fun append_file :: "bytes \<Rightarrow> node option \<Rightarrow> node option" where
  "append_file s (Some (RegFile c)) = Some (RegFile (c @ s))"
| "append_file s x = x"

definition deliver :: "dest \<Rightarrow> bytes \<Rightarrow> world \<Rightarrow> world" where
  "deliver d s w =
     (case d of
        Stdout \<Rightarrow> w\<lparr>stdout := stdout w @ s,
                    stdout_room := map_option (\<lambda>r. r - length s) (stdout_room w)\<rparr>
      | OutFile f \<Rightarrow> w\<lparr>fs := (fs w)(f := append_file s (fs w f)),
                    disk_room := map_option (\<lambda>r. r - length s) (disk_room w)\<rparr>)"

definition write_err_msg :: "dest \<Rightarrow> errmsg" where
  "write_err_msg d =
     (case d of
        Stdout \<Rightarrow> ''write /dev/stdout: no space left on device''
      | OutFile f \<Rightarrow> ''write '' @ f @ '': no space left on device'')"

definition os_write :: "dest \<Rightarrow> bytes \<Rightarrow> world \<Rightarrow> nat \<times> errmsg option \<times> world" where
  "os_write d p w =
     (let n = (case room_of d w of None \<Rightarrow> length p | Some r \<Rightarrow> min r (length p))
      in (n, if n < length p then Some (write_err_msg d) else None, deliver d (take n p) w))"

definition println :: "string \<Rightarrow> world \<Rightarrow> world" where
  "println s w = snd (snd (os_write Stdout (s @ ''\<newline>'') w))"

definition eprint :: "string \<Rightarrow> world \<Rightarrow> world" where
  "eprint s w = w\<lparr>stderr := stderr w @ s\<rparr>"

definition os_stat :: "string \<Rightarrow> world \<Rightarrow> errmsg + node" where
  "os_stat p w =
     (if p \<in> locked w then Inl (''stat '' @ p @ '': permission denied'')
      else case fs w p of
             Some nd \<Rightarrow> Inr nd
           | None \<Rightarrow> Inl (''stat '' @ p @ '': no such file or directory''))"

definition os_create :: "string \<Rightarrow> world \<Rightarrow> (errmsg + string) \<times> world" where
  "os_create p w =
     (if p \<in> locked w then (Inl (''open '' @ p @ '': permission denied''), w)
      else case fs w p of
             Some Dir \<Rightarrow> (Inl (''open '' @ p @ '': is a directory''), w)
           | _ \<Rightarrow> (Inr p, w\<lparr>fs := (fs w)(p \<mapsto> RegFile [])\<rparr>))"

definition body_close :: "world \<Rightarrow> world" where
  "body_close w = w\<lparr>open_bodies := open_bodies w - 1\<rparr>"

text \<open>
  A step of the process either goes on with a value or ends it:
  \<open>os.Exit(c)\<close> is \<open>Inl c\<close>. \<open>bind_step\<close> runs the next step only when the
  process goes on; deferred calls do not run on \<open>os.Exit\<close>, so a step that
  exits leaves the world as it is at that moment.
\<close>

type_synonym 'a outcome = "(exit_code + 'a) \<times> world"

definition bind_step :: "'a outcome \<Rightarrow> ('a \<Rightarrow> world \<Rightarrow> 'b outcome) \<Rightarrow> 'b outcome" where
  "bind_step m f = (case m of (Inl c, w) \<Rightarrow> (Inl c, w) | (Inr a, w) \<Rightarrow> f a w)"

lemma bind_step_simps [simp]:
  "bind_step (Inl c, w) f = (Inl c, w)"
  "bind_step (Inr a, w) f = f a w"
  by (simp_all add: bind_step_def)

lemma bind_step_Inr_iff:
  "bind_step m f = (Inr b, w') \<longleftrightarrow> (\<exists>a w1. m = (Inr a, w1) \<and> f a w1 = (Inr b, w'))"
  by (cases m; cases "fst m") (auto simp: bind_step_def)

subsection \<open>The write system call\<close>

lemma os_write_unlimited:
  "room_of d w = None \<Longrightarrow> os_write d p w = (length p, None, deliver d p w)"
  by (simp add: os_write_def)

lemma os_write_count_le: "os_write d p w = (n, e, w') \<Longrightarrow> n \<le> length p"
  by (auto simp: os_write_def Let_def split: option.splits)

lemma os_write_ok_iff:
  "os_write d p w = (n, e, w') \<Longrightarrow> (e = None) = (n = length p)"
  by (auto simp: os_write_def Let_def split: option.splits if_splits)

lemma os_write_delivers:
  "os_write d p w = (n, e, w') \<Longrightarrow> w' = deliver d (take n p) w"
  by (auto simp: os_write_def Let_def)

lemma stdout_deliver [simp]:
  "stdout (deliver d s w) = (if d = Stdout then stdout w @ s else stdout w)"
  by (simp add: deliver_def split: dest.splits)

lemma fs_deliver [simp]:
  "fs (deliver d s w) = (case d of Stdout \<Rightarrow> fs w | OutFile f \<Rightarrow> (fs w)(f := append_file s (fs w f)))"
  by (simp add: deliver_def split: dest.splits)

lemma deliver_frame [simp, frame_simps]:
  "stderr (deliver d s w) = stderr w"
  "locked (deliver d s w) = locked w"
  "net (deliver d s w) = net w"
  "requests (deliver d s w) = requests w"
  "open_bodies (deliver d s w) = open_bodies w"
  by (simp_all add: deliver_def split: dest.splits)

lemma append_file_Nil [simp]: "append_file [] x = x"
  by (cases "([]::bytes, x)" rule: append_file.cases) auto

lemma append_file_append: "append_file (s @ t) x = append_file t (append_file s x)"
  by (cases "(s, x)" rule: append_file.cases) auto

lemma deliver_Nil [simp]: "deliver d [] w = w"
  by (cases d; cases "stdout_room w"; cases "disk_room w") (simp_all add: deliver_def)

lemma deliver_append: "deliver d (s @ t) w = deliver d t (deliver d s w)"
  by (cases d; cases "stdout_room w"; cases "disk_room w")
     (simp_all add: deliver_def append_file_append)

lemma room_of_deliver_other [simp]:
  "room_of d w = None \<Longrightarrow> room_of d (deliver d' s w) = None"
  by (cases d; cases d') (simp_all add: room_of_def deliver_def)

subsection \<open>Frame facts\<close>

lemma println_frame [simp, frame_simps]:
  "fs (println s w) = fs w"
  "stderr (println s w) = stderr w"
  "locked (println s w) = locked w"
  "net (println s w) = net w"
  "requests (println s w) = requests w"
  "open_bodies (println s w) = open_bodies w"
  "disk_room (println s w) = disk_room w"
  by (simp_all add: println_def os_write_def Let_def deliver_def)

lemma println_stdout_unlimited:
  "stdout_room w = None \<Longrightarrow> stdout (println s w) = stdout w @ s @ ''\<newline>''"
  by (simp add: println_def os_write_def room_of_def)

lemma println_room_None [simp]:
  "stdout_room w = None \<Longrightarrow> stdout_room (println s w) = None"
  by (simp add: println_def os_write_def room_of_def deliver_def)

lemma eprint_frame [simp, frame_simps]:
  "stdout (eprint s w) = stdout w"
  "fs (eprint s w) = fs w"
  "requests (eprint s w) = requests w"
  "open_bodies (eprint s w) = open_bodies w"
  by (simp_all add: eprint_def)

lemma os_create_frame [frame_simps]:
  "os_create p w = (r, w') \<Longrightarrow> stdout w' = stdout w"
  "os_create p w = (r, w') \<Longrightarrow> requests w' = requests w"
  "os_create p w = (r, w') \<Longrightarrow> open_bodies w' = open_bodies w"
  "os_create p w = (r, w') \<Longrightarrow> stdout_room w' = stdout_room w"
  "os_create p w = (r, w') \<Longrightarrow> disk_room w' = disk_room w"
  "os_create p w = (r, w') \<Longrightarrow> net w' = net w"
  by (auto simp: os_create_def split: if_splits option.splits node.splits)

end
