(* ===== verification/Bufio.thy ===== *)
theory Bufio
  imports World
begin

text \<open>
  Go's \<open>bufio.Writer\<close> over a descriptor of the world, as webfetch uses it: created
  by \<open>bufio.NewWriter\<close> (default size 4096), fed by \<open>Write\<close>, emptied by
  \<open>Flush\<close>. The record holds the writer's fields: the underlying writer
  (\<open>wr\<close>), the buffered bytes \<open>buf[0:n]\<close> (so \<open>n\<close> is their length), the
  buffer's size \<open>len(buf)\<close>, and the sticky error \<open>err\<close>. \<open>Write\<close>'s loop is a
  \<^theory_text>\<open>function\<close> with a termination proof: each round either sets the error,
  consumes input, or empties a full buffer.
\<close>

record bufw =
  bw_dest :: dest
  bw_buf :: bytes
  bw_size :: nat
  bw_err :: "errmsg option"

definition default_buf_size :: nat where
  "default_buf_size = 4096"

definition bufio_new_writer :: "dest \<Rightarrow> bufw" where
  "bufio_new_writer d = \<lparr>bw_dest = d, bw_buf = [], bw_size = default_buf_size, bw_err = None\<rparr>"

definition available :: "bufw \<Rightarrow> nat" where
  "available b = bw_size b - length (bw_buf b)"

definition bufio_flush :: "bufw \<Rightarrow> world \<Rightarrow> errmsg option \<times> bufw \<times> world" where
  "bufio_flush b w =
     (case bw_err b of
        Some e \<Rightarrow> (Some e, b, w)
      | None \<Rightarrow>
          if bw_buf b = [] then (None, b, w)
          else (case os_write (bw_dest b) (bw_buf b) w of
                  (n, err, w') \<Rightarrow>
                    (let err' = (if n < length (bw_buf b) \<and> err = None then Some ''short write'' else err)
                     in case err' of
                          Some e \<Rightarrow> (Some e, b\<lparr>bw_buf := drop n (bw_buf b), bw_err := Some e\<rparr>, w')
                        | None \<Rightarrow> (None, b\<lparr>bw_buf := []\<rparr>, w'))))"

lemma bufio_flush_outcome:
  assumes fl: "bufio_flush b w = (r, b', w')"
  shows "(bw_err b \<noteq> None \<and> r = bw_err b \<and> b' = b \<and> w' = w) \<or>
         (bw_err b = None \<and> bw_buf b = [] \<and> r = None \<and> b' = b \<and> w' = w) \<or>
         (\<exists>n. bw_err b = None \<and> bw_buf b \<noteq> [] \<and> os_write (bw_dest b) (bw_buf b) w = (n, r, w') \<and>
            b' = (if r = None then b\<lparr>bw_buf := []\<rparr> else b\<lparr>bw_buf := drop n (bw_buf b), bw_err := r\<rparr>))"
proof (cases "bw_err b = None \<and> bw_buf b \<noteq> []")
  case True
  obtain n e w1 where wr: "os_write (bw_dest b) (bw_buf b) w = (n, e, w1)"
    by (cases "os_write (bw_dest b) (bw_buf b) w") auto
  from os_write_ok_iff [OF wr] have short: "(n < length (bw_buf b) \<and> e = None) = False"
    by auto
  from fl True wr short have "r = e \<and> w' = w1 \<and>
      b' = (if e = None then b\<lparr>bw_buf := []\<rparr> else b\<lparr>bw_buf := drop n (bw_buf b), bw_err := e\<rparr>)"
    by (cases e) (auto simp: bufio_flush_def)
  then have "r = e" and "w' = w1"
    and "b' = (if e = None then b\<lparr>bw_buf := []\<rparr> else b\<lparr>bw_buf := drop n (bw_buf b), bw_err := e\<rparr>)"
    by simp_all
  with True wr show ?thesis
    by (intro disjI2 exI [of _ n]) simp
next
  case False
  with fl show ?thesis by (auto simp: bufio_flush_def split: option.splits)
qed

lemma bufio_flush_err_result:
  "bufio_flush b w = (r, b', w') \<Longrightarrow> r = bw_err b'"
  by (drule bufio_flush_outcome) (cases r; auto)

lemma bufio_flush_ok_empties:
  "bufio_flush b w = (r, b', w') \<Longrightarrow> bw_err b' = None \<Longrightarrow> bw_buf b' = []"
  by (drule bufio_flush_outcome) (cases r; auto)

lemma bufio_flush_delivers:
  assumes fl: "bufio_flush b w = (r, b', w')"
  shows "\<exists>Y. w' = deliver (bw_dest b) Y w \<and> Y @ bw_buf b' = bw_buf b"
  using bufio_flush_outcome [OF fl]
proof (elim disjE exE conjE)
  fix n
  assume wr: "os_write (bw_dest b) (bw_buf b) w = (n, r, w')"
    and b': "b' = (if r = None then b\<lparr>bw_buf := []\<rparr> else b\<lparr>bw_buf := drop n (bw_buf b), bw_err := r\<rparr>)"
  have "r = None \<Longrightarrow> n = length (bw_buf b)" using os_write_ok_iff [OF wr] by simp
  with os_write_delivers [OF wr] b' show ?thesis
    by (intro exI [of _ "take n (bw_buf b)"]) (cases r, auto)
qed (intro exI [of _ "[]"]; simp)+

function write_loop :: "bufw \<Rightarrow> bytes \<Rightarrow> nat \<Rightarrow> world \<Rightarrow> nat \<times> errmsg option \<times> bufw \<times> world" where
  "write_loop b p nn w =
     (if available b < length p \<and> bw_err b = None then
        (if bw_buf b = [] then
           (case os_write (bw_dest b) p w of
              (n, e, w') \<Rightarrow> write_loop (b\<lparr>bw_err := e\<rparr>) (drop n p) (nn + n) w')
         else
           (let n = available b; b1 = b\<lparr>bw_buf := bw_buf b @ take n p\<rparr>
            in case bufio_flush b1 w of
                 (_, b2, w') \<Rightarrow> write_loop b2 (drop n p) (nn + n) w'))
      else if bw_err b \<noteq> None then (nn, bw_err b, b, w)
      else (nn + length p, None, b\<lparr>bw_buf := bw_buf b @ p\<rparr>, w))"
  by pat_completeness auto
termination
proof (relation "measures [\<lambda>(b, p, nn, w). if bw_err b = None then 1 else 0,
                             \<lambda>(b, p, nn, w). length p,
                             \<lambda>(b, p, nn, w). length (bw_buf b)]", goal_cases)
  case 1
  show ?case by simp
next
  case (2 b p nn w n y e w')
  then have "os_write (bw_dest b) p w = (n, e, w')" by simp
  then have "(e = None) = (n = length p)" by (rule os_write_ok_iff)
  with 2 show ?case by auto
next
  case (3 b p nn w n b1 r y b2 w')
  then have fl: "bufio_flush b1 w = (r, b2, w')" by simp
  show ?case
  proof (cases "bw_err b2")
    case None
    with fl have "bw_buf b2 = []" by (rule bufio_flush_ok_empties)
    with 3 None show ?thesis by (cases "n = 0") auto
  next
    case (Some e)
    with 3 show ?thesis by simp
  qed
qed

declare write_loop.simps [simp del]

definition bufio_write :: "bufw \<Rightarrow> bytes \<Rightarrow> world \<Rightarrow> nat \<times> errmsg option \<times> bufw \<times> world" where
  "bufio_write b p w = write_loop b p 0 w"

text \<open>
  The abstract view of a writer: the world as it will be once the buffered bytes
  reach the descriptor. A write that reports no error moves this view by exactly
  the bytes written; a flush that reports no error leaves it where it is and
  empties the buffer. The invariant is Go's \<open>b.n <= len(b.buf)\<close>.
\<close>

definition bw_abs :: "bufw \<Rightarrow> world \<Rightarrow> world" where
  "bw_abs b w = deliver (bw_dest b) (bw_buf b) w"

definition bw_inv :: "bufw \<Rightarrow> bool" where
  "bw_inv b \<longleftrightarrow> length (bw_buf b) \<le> bw_size b"

text \<open>
  A small writer for the examples below: four bytes of buffer holding \<open>ab\<close>,
  on a standard output that accepts three more bytes.
\<close>

definition tiny_writer :: bufw where
  "tiny_writer = \<lparr>bw_dest = Stdout, bw_buf = ''ab'', bw_size = 4, bw_err = None\<rparr>"

definition tight_world :: world where
  "tight_world = \<lparr>stdout = [], stderr = [], fs = Map.empty, locked = {}, stdout_room = Some 3,
     disk_room = None, net = (\<lambda>_. Refused ''offline''), requests = [], open_bodies = 0\<rparr>"

subsection \<open>Flush\<close>

lemma bufio_flush_sticky:
  "bw_err b = Some e \<Longrightarrow> bufio_flush b w = (Some e, b, w)"
  by (simp add: bufio_flush_def)

lemma bufio_flush_dest:
  "bufio_flush b w = (r, b', w') \<Longrightarrow> bw_dest b' = bw_dest b \<and> bw_size b' = bw_size b"
  by (drule bufio_flush_outcome) (cases r; auto)

lemma bufio_flush_inv:
  "bufio_flush b w = (r, b', w') \<Longrightarrow> bw_inv b \<Longrightarrow> bw_inv b'"
  by (drule bufio_flush_outcome) (cases r; auto simp: bw_inv_def)

lemma bufio_flush_ok:
  assumes fl: "bufio_flush b w = (r, b', w')" and ok: "bw_err b' = None"
  shows "bw_abs b' w' = bw_abs b w \<and> bw_buf b' = [] \<and> bw_err b = None"
  using bufio_flush_outcome [OF fl]
proof (elim disjE exE conjE)
  fix n
  assume "bw_err b = None" and wr: "os_write (bw_dest b) (bw_buf b) w = (n, r, w')"
    and b': "b' = (if r = None then b\<lparr>bw_buf := []\<rparr> else b\<lparr>bw_buf := drop n (bw_buf b), bw_err := r\<rparr>)"
  with ok have "r = None" by (cases r) auto
  with os_write_ok_iff [OF wr] have "n = length (bw_buf b)" by simp
  with os_write_delivers [OF wr] b' \<open>r = None\<close> \<open>bw_err b = None\<close> show ?thesis
    by (simp add: bw_abs_def)
qed (use ok in \<open>auto simp: bw_abs_def\<close>)

lemma bufio_flush_unlimited:
  "room_of (bw_dest b) w = None \<Longrightarrow> bw_err b = None \<Longrightarrow> bufio_flush b w = (r, b', w') \<Longrightarrow>
     r = None \<and> bw_err b' = None \<and> room_of (bw_dest b) w' = None"
  by (drule bufio_flush_outcome) (auto simp: os_write_unlimited)

subsection \<open>Write\<close>


lemma write_loop_sticky:
  "bw_err b = Some e \<Longrightarrow> write_loop b p nn w = (nn, Some e, b, w)"
  by (simp add: write_loop.simps)

lemma write_loop_fits:
  "\<not> available b < length p \<Longrightarrow> bw_err b = None \<Longrightarrow>
     write_loop b p nn w = (nn + length p, None, b\<lparr>bw_buf := bw_buf b @ p\<rparr>, w)"
  by (simp add: write_loop.simps)

lemma write_loop_direct:
  "available b < length p \<Longrightarrow> bw_err b = None \<Longrightarrow> bw_buf b = [] \<Longrightarrow>
     os_write (bw_dest b) p w = (n, e, w1) \<Longrightarrow>
     write_loop b p nn w = write_loop (b\<lparr>bw_err := e\<rparr>) (drop n p) (nn + n) w1"
  by (simp add: write_loop.simps [of b p nn w])

lemma write_loop_buffered:
  "available b < length p \<Longrightarrow> bw_err b = None \<Longrightarrow> bw_buf b \<noteq> [] \<Longrightarrow>
     bufio_flush (b\<lparr>bw_buf := bw_buf b @ take (available b) p\<rparr>) w = (r, b2, w1) \<Longrightarrow>
     write_loop b p nn w = write_loop b2 (drop (available b) p) (nn + available b) w1"
  by (simp add: write_loop.simps [of b p nn w] Let_def)

text \<open>
  Everything the loop guarantees, in one statement so that one computation
  induction proves it: the destination and size are kept, the invariant is kept,
  the count grows by at most the input, the result reports the writer's error,
  without an error the whole input was accepted, on a destination without a limit
  no error arises; and, on every path, the world received some bytes \<open>X\<close> such
  that \<open>X\<close> followed by the new buffer is the old buffer followed by exactly the
  bytes the count reports.
\<close>

definition write_post :: "bufw \<Rightarrow> bytes \<Rightarrow> nat \<Rightarrow> world \<Rightarrow> nat \<times> errmsg option \<times> bufw \<times> world \<Rightarrow> bool" where
  "write_post b p nn w res \<longleftrightarrow> (case res of (nn', r, b', w') \<Rightarrow>
     bw_dest b' = bw_dest b \<and> bw_size b' = bw_size b \<and> (bw_inv b \<longrightarrow> bw_inv b') \<and>
     nn \<le> nn' \<and> nn' \<le> nn + length p \<and> r = bw_err b' \<and>
     (r = None \<longrightarrow> nn' = nn + length p) \<and>
     (\<exists>X. w' = deliver (bw_dest b) X w \<and> X @ bw_buf b' = bw_buf b @ take (nn' - nn) p) \<and>
     (room_of (bw_dest b) w = None \<and> bw_err b = None \<longrightarrow> r = None \<and> room_of (bw_dest b) w' = None))"

lemma take_add_drop: "take (n + m) p = take n p @ take m (drop n p)"
  by (simp add: take_add)

lemma write_post_direct_step:
  assumes direct: "bw_err b = None" "available b < length p" "bw_buf b = []"
    and wr: "os_write (bw_dest b) p w = (n, e, w1)"
    and IH: "write_post (b\<lparr>bw_err := e\<rparr>) (drop n p) (nn + n) w1 (nn', r, b', w')"
  shows "write_post b p nn w (nn', r, b', w')"
proof -
  have n: "n \<le> length p" using wr by (rule os_write_count_le)
  have ok: "(e = None) = (n = length p)" using wr by (rule os_write_ok_iff)
  have w1: "w1 = deliver (bw_dest b) (take n p) w" using wr by (rule os_write_delivers)
  have unl: "room_of (bw_dest b) w = None \<Longrightarrow> e = None"
    using wr by (simp add: os_write_unlimited)
  from IH have d: "bw_dest b' = bw_dest b" "bw_size b' = bw_size b"
    and inv: "bw_inv b \<longrightarrow> bw_inv b'" and le: "nn + n \<le> nn'" and le2: "nn' \<le> nn + length p"
    and r: "r = bw_err b'" and rN: "r = None \<longrightarrow> nn' = nn + length p"
    and unl': "room_of (bw_dest b) w1 = None \<and> e = None \<longrightarrow> r = None \<and> room_of (bw_dest b) w' = None"
    using n by (auto simp: write_post_def bw_inv_def direct)
  from IH obtain X where X: "w' = deliver (bw_dest b) X w1"
    and Xb: "X @ bw_buf b' = take (nn' - (nn + n)) (drop n p)"
    by (auto simp: write_post_def direct)
  have split: "take (nn' - nn) p = take n p @ take (nn' - (nn + n)) (drop n p)"
    using le take_add_drop [of n "nn' - (nn + n)" p] by simp
  have acc: "w' = deliver (bw_dest b) (take n p @ X) w \<and> (take n p @ X) @ bw_buf b' = bw_buf b @ take (nn' - nn) p"
    using X Xb direct split w1 by (simp add: deliver_append)
  have unl2: "room_of (bw_dest b) w = None \<Longrightarrow> room_of (bw_dest b) w1 = None"
    using w1 by simp
  have le0: "nn \<le> nn'" using le by simp
  from acc have ex: "\<exists>X. w' = deliver (bw_dest b) X w \<and> X @ bw_buf b' = bw_buf b @ take (nn' - nn) p"
    by blast
  show ?thesis
    unfolding write_post_def prod.case
    using d inv le0 le2 r rN unl unl2 unl' direct(1) ex
    by (intro conjI impI) simp_all
qed

lemma write_post_buffered_step:
  assumes buffered: "bw_err b = None" "available b < length p" "bw_buf b \<noteq> []"
    and fl: "bufio_flush (b\<lparr>bw_buf := bw_buf b @ take (available b) p\<rparr>) w = (r0, b2, w1)"
    and IH: "write_post b2 (drop (available b) p) (nn + available b) w1 (nn', r, b', w')"
  shows "write_post b p nn w (nn', r, b', w')"
proof -
  define a where "a = available b"
  have a: "a < length p" using buffered by (simp add: a_def)
  have d2: "bw_dest b2 = bw_dest b" "bw_size b2 = bw_size b"
    using bufio_flush_dest [OF fl] by simp_all
  have inv: "bw_inv b \<Longrightarrow> bw_inv b2"
    using bufio_flush_inv [OF fl] a by (simp add: bw_inv_def a_def available_def)
  obtain Y where Y: "w1 = deliver (bw_dest b) Y w" and Yb: "Y @ bw_buf b2 = bw_buf b @ take a p"
    using bufio_flush_delivers [OF fl] by (auto simp: a_def)
  have unl: "room_of (bw_dest b) w = None \<Longrightarrow> bw_err b2 = None \<and> room_of (bw_dest b) w1 = None"
    using bufio_flush_unlimited [OF _ _ fl] buffered by simp
  from IH d2 have d: "bw_dest b' = bw_dest b" "bw_size b' = bw_size b"
    and inv': "bw_inv b2 \<longrightarrow> bw_inv b'" and le: "nn + a \<le> nn'" and le2: "nn' \<le> nn + length p"
    and r: "r = bw_err b'" and rN: "r = None \<longrightarrow> nn' = nn + length p"
    and unl': "room_of (bw_dest b) w1 = None \<and> bw_err b2 = None \<longrightarrow> r = None \<and> room_of (bw_dest b) w' = None"
    using a by (auto simp: write_post_def a_def)
  from IH d2 obtain X where X: "w' = deliver (bw_dest b) X w1"
    and Xb: "X @ bw_buf b' = bw_buf b2 @ take (nn' - (nn + a)) (drop a p)"
    by (auto simp: write_post_def a_def)
  have split: "take (nn' - nn) p = take a p @ take (nn' - (nn + a)) (drop a p)"
    using le take_add_drop [of a "nn' - (nn + a)" p] by simp
  have "(Y @ X) @ bw_buf b' = (Y @ bw_buf b2) @ take (nn' - (nn + a)) (drop a p)"
    using Xb by simp
  also have "\<dots> = bw_buf b @ take (nn' - nn) p"
    using Yb split by simp
  finally have acc: "w' = deliver (bw_dest b) (Y @ X) w \<and> (Y @ X) @ bw_buf b' = bw_buf b @ take (nn' - nn) p"
    using X Y by (simp add: deliver_append)
  then have ex: "\<exists>X. w' = deliver (bw_dest b) X w \<and> X @ bw_buf b' = bw_buf b @ take (nn' - nn) p"
    by blast
  have le0: "nn \<le> nn'" using le by simp
  show ?thesis
    unfolding write_post_def prod.case
    using d inv inv' le0 le2 r rN unl unl' ex buffered(1)
    by (intro conjI impI) simp_all
qed

lemma write_loop_post: "write_post b p nn w (write_loop b p nn w)"
proof (induction b p nn w rule: write_loop.induct)
  case (1 b p nn w)
  consider (sticky) e where "bw_err b = Some e"
    | (fits) "bw_err b = None" "\<not> available b < length p"
    | (direct) "bw_err b = None" "available b < length p" "bw_buf b = []"
    | (buffered) "bw_err b = None" "available b < length p" "bw_buf b \<noteq> []"
    by blast
  then show ?case
  proof cases
    case sticky
    then show ?thesis by (simp add: write_loop_sticky write_post_def)
  next
    case fits
    then show ?thesis
      by (auto simp: write_loop_fits write_post_def bw_inv_def available_def)
  next
    case direct
    obtain n e w1 where wr: "os_write (bw_dest b) p w = (n, e, w1)"
      by (cases "os_write (bw_dest b) p w") auto
    have IH: "write_post (b\<lparr>bw_err := e\<rparr>) (drop n p) (nn + n) w1
                (write_loop (b\<lparr>bw_err := e\<rparr>) (drop n p) (nn + n) w1)"
      using direct by (intro "1.IH"(1) [OF _ _ wr [symmetric] refl]) simp_all
    then show ?thesis
      unfolding write_loop_direct [OF direct(2,1,3) wr]
      by (cases "write_loop (b\<lparr>bw_err := e\<rparr>) (drop n p) (nn + n) w1")
         (simp only: write_post_direct_step [OF direct wr])
  next
    case buffered
    obtain r0 b2 w1 where fl: "bufio_flush (b\<lparr>bw_buf := bw_buf b @ take (available b) p\<rparr>) w = (r0, b2, w1)"
      by (cases "bufio_flush (b\<lparr>bw_buf := bw_buf b @ take (available b) p\<rparr>) w") auto
    have IH: "write_post b2 (drop (available b) p) (nn + available b) w1
                (write_loop b2 (drop (available b) p) (nn + available b) w1)"
      by (rule "1.IH"(2) [OF conjI [OF buffered(2) buffered(1)] buffered(3) refl refl fl [symmetric] refl])
    then show ?thesis
      unfolding write_loop_buffered [OF buffered(2,1,3) fl]
      by (cases "write_loop b2 (drop (available b) p) (nn + available b) w1")
         (simp only: write_post_buffered_step [OF buffered fl])
  qed
qed

subsection \<open>The methods\<close>

lemma bufio_new_writer_inv: "bw_inv (bufio_new_writer d)"
  by (simp add: bw_inv_def bufio_new_writer_def)

lemma bufio_new_writer_abs [simp]: "bw_abs (bufio_new_writer d) w = w"
  by (simp add: bw_abs_def bufio_new_writer_def)

lemma bufio_new_writer_fields [simp]:
  "bw_dest (bufio_new_writer d) = d" "bw_err (bufio_new_writer d) = None"
  "bw_buf (bufio_new_writer d) = []"
  by (simp_all add: bufio_new_writer_def)

lemma bufio_write_post:
  assumes "bufio_write b p w = (n, r, b', w')"
  shows "bw_dest b' = bw_dest b \<and> (bw_inv b \<longrightarrow> bw_inv b') \<and> n \<le> length p \<and> r = bw_err b' \<and>
         (r = None \<longrightarrow> n = length p) \<and>
         (\<exists>X. w' = deliver (bw_dest b) X w \<and> X @ bw_buf b' = bw_buf b @ take n p) \<and>
         (room_of (bw_dest b) w = None \<and> bw_err b = None \<longrightarrow> r = None \<and> room_of (bw_dest b) w' = None)"
proof -
  have "write_post b p 0 w (n, r, b', w')"
    using write_loop_post [of b p 0 w] assms by (simp add: bufio_write_def)
  then show ?thesis unfolding write_post_def prod.case by simp blast
qed

lemma abs_of_delivered:
  "w' = deliver d X w \<Longrightarrow> X @ bw_buf b' = B \<Longrightarrow> bw_dest b' = d \<Longrightarrow> bw_abs b' w' = deliver d B w"
  by (simp add: bw_abs_def deliver_append [symmetric])

lemma bufio_write_abs:
  assumes "bufio_write b p w = (n, r, b', w')"
  shows "bw_abs b' w' = deliver (bw_dest b) (take n p) (bw_abs b w)"
proof -
  from bufio_write_post [OF assms] obtain X where "w' = deliver (bw_dest b) X w"
    and "X @ bw_buf b' = bw_buf b @ take n p" and "bw_dest b' = bw_dest b"
    by blast
  then have "bw_abs b' w' = deliver (bw_dest b) (bw_buf b @ take n p) w" by (rule abs_of_delivered)
  then show ?thesis by (simp add: bw_abs_def deliver_append)
qed

lemma bufio_write_sticky:
  "bw_err b = Some e \<Longrightarrow> bufio_write b p w = (0, Some e, b, w)"
  by (simp add: bufio_write_def write_loop_sticky)

lemma bufio_flush_post:
  assumes "bufio_flush b w = (r, b', w')"
  shows "bw_dest b' = bw_dest b \<and> (bw_inv b \<longrightarrow> bw_inv b') \<and> r = bw_err b' \<and>
         (r = None \<longrightarrow> bw_buf b' = [] \<and> w' = bw_abs b w) \<and>
         (room_of (bw_dest b) w = None \<and> bw_err b = None \<longrightarrow> r = None \<and> room_of (bw_dest b) w' = None)"
proof -
  have "r = bw_err b'" using assms by (rule bufio_flush_err_result)
  moreover have "r = None \<Longrightarrow> bw_buf b' = [] \<and> w' = bw_abs b w"
    using bufio_flush_ok [OF assms] calculation by (auto simp: bw_abs_def)
  ultimately show ?thesis
    using bufio_flush_dest [OF assms] bufio_flush_inv [OF assms] bufio_flush_unlimited [OF _ _ assms]
    by auto
qed

subsection \<open>Correctness of the writer\<close>

text \<open>
  The contract of \<open>Write\<close>, as a refinement of an unbuffered stream: the count it
  returns never exceeds the input, it is the whole input when no error is
  reported, the error it reports is the writer's sticky error, and the abstract
  stream advances by exactly the first \<open>n\<close> bytes, whatever the destination did.
\<close>

text \<open>C13. \<open>Write\<close> refines an unbuffered stream: the count it returns is at most the input and all of it when no error is reported, the reported error is the writer's sticky error, and the abstract stream (\<open>bw_abs\<close>) advances by exactly the first \<open>n\<close> input bytes on every path, errors included.\<close>

theorem bufio_write_refines:
  assumes "bufio_write b p w = (n, r, b', w')"
  shows "n \<le> length p \<and> (r = None \<longrightarrow> n = length p) \<and> r = bw_err b' \<and>
         bw_abs b' w' = deliver (bw_dest b) (take n p) (bw_abs b w)"
  using bufio_write_post [OF assms] bufio_write_abs [OF assms] by blast

text \<open>C14. \<open>Flush\<close> never changes the abstract stream, whether it succeeds or fails, and empties the buffer when it succeeds.\<close>

theorem bufio_flush_refines:
  assumes "bufio_flush b w = (r, b', w')"
  shows "bw_abs b' w' = bw_abs b w \<and> (r = None \<longrightarrow> bw_buf b' = [])"
proof -
  from bufio_flush_delivers [OF assms] obtain Y where "w' = deliver (bw_dest b) Y w"
    and "Y @ bw_buf b' = bw_buf b" by blast
  moreover have "bw_dest b' = bw_dest b" using bufio_flush_dest [OF assms] by simp
  ultimately have "bw_abs b' w' = deliver (bw_dest b) (bw_buf b) w" by (rule abs_of_delivered)
  moreover have "r = None \<longrightarrow> bw_buf b' = []"
    using bufio_flush_err_result [OF assms] bufio_flush_ok_empties [OF assms] by simp
  ultimately show ?thesis by (simp add: bw_abs_def)
qed

text \<open>C15. \<open>Write\<close> keeps the writer's invariant: the buffered bytes never exceed the buffer's size.\<close>

theorem bufio_write_keeps_inv:
  "bw_inv b \<Longrightarrow> bufio_write b p w = (n, r, b', w') \<Longrightarrow> bw_inv b'"
  using bufio_write_post by blast

theorem bufio_write_refines_witness:
  "fst (bufio_write tiny_writer ''cdefgh'' tight_world) = 2 \<and>
   stdout (bw_abs (fst (snd (snd (bufio_write tiny_writer ''cdefgh'' tight_world))))
                  (snd (snd (snd (bufio_write tiny_writer ''cdefgh'' tight_world))))) = ''abcd''"
proof -
  let ?r = "bufio_write tiny_writer ''cdefgh'' tight_world"
  have n: "fst ?r = 2" by code_simp
  have eq: "?r = (fst ?r, fst (snd ?r), fst (snd (snd ?r)), snd (snd (snd ?r)))" by simp
  from bufio_write_refines [OF eq] n show ?thesis
    by (simp add: bw_abs_def tiny_writer_def tight_world_def)
qed

theorem bufio_flush_refines_witness:
  "stdout (bw_abs (fst (snd (bufio_flush (tiny_writer\<lparr>bw_buf := ''abcd''\<rparr>) tight_world)))
                  (snd (snd (bufio_flush (tiny_writer\<lparr>bw_buf := ''abcd''\<rparr>) tight_world)))) = ''abcd''"
proof -
  let ?r = "bufio_flush (tiny_writer\<lparr>bw_buf := ''abcd''\<rparr>) tight_world"
  have eq: "?r = (fst ?r, fst (snd ?r), snd (snd ?r))" by simp
  from bufio_flush_refines [OF eq] show ?thesis
    by (simp add: bw_abs_def tiny_writer_def tight_world_def)
qed

theorem bufio_write_keeps_inv_witness:
  "bw_inv (fst (snd (snd (bufio_write tiny_writer ''cdefgh'' tight_world))))"
proof -
  let ?r = "bufio_write tiny_writer ''cdefgh'' tight_world"
  have i: "bw_inv tiny_writer" by (simp add: bw_inv_def tiny_writer_def)
  have eq: "?r = (fst ?r, fst (snd ?r), fst (snd (snd ?r)), snd (snd (snd ?r)))" by simp
  show ?thesis by (rule bufio_write_keeps_inv [OF i eq])
qed

end
