(* ===== verification/Output.thy ===== *)
theory Output
  imports Bufio
begin

text \<open>
  The output side of webfetch (src/main.go): \<open>getWriter\<close> (lines 15--35) resolves
  the \<open>-o\<close> path to a buffered writer on standard output or on a newly created
  file, terminating the process (\<open>os.Exit(1)\<close>, modelled as \<open>Inl 1\<close>) when the
  path exists or cannot be created; \<open>writeContents\<close> (lines 39--43) writes the body
  and a newline through the writer and flushes it on return (the deferred
  \<open>w.Flush()\<close>), ignoring every error these calls return.
\<close>

definition get_stdout_writer :: "world \<Rightarrow> bufw outcome" where
  "get_stdout_writer w = (Inr (bufio_new_writer Stdout), println ''Empty output. Using os.Stdout'' w)"

definition check_exists :: "string \<Rightarrow> world \<Rightarrow> unit outcome" where
  "check_exists path w =
     (case os_stat path w of
        Inr _ \<Rightarrow> (Inl 1, println ''The file already exists'' w)
      | Inl _ \<Rightarrow> (Inr (), w))"

definition create_output :: "string \<Rightarrow> world \<Rightarrow> bufw outcome" where
  "create_output path w =
     (case os_create path w of
        (Inl err, w1) \<Rightarrow> (Inl 1, println err w1)
      | (Inr f, w1) \<Rightarrow>
          (Inr (bufio_new_writer (OutFile f)), println (''Valid output file. Using file '' @ f) w1))"

definition getWriter :: "string \<Rightarrow> world \<Rightarrow> bufw outcome" where
  "getWriter path w =
     (if path = [] then get_stdout_writer w
      else bind_step (check_exists path w) (\<lambda>_. create_output path))"

lemmas getWriter_defs = getWriter_def get_stdout_writer_def check_exists_def create_output_def

definition writeContents :: "bytes \<Rightarrow> bufw \<Rightarrow> world \<Rightarrow> world" where
  "writeContents content b w =
     (case bufio_write b content w of
        (_, _, b1, w1) \<Rightarrow>
          (case bufio_write b1 ''\<newline>'' w1 of
             (_, _, b2, w2) \<Rightarrow>
               (case bufio_flush b2 w2 of (_, _, w3) \<Rightarrow> w3)))"

subsection \<open>getWriter\<close>

lemma getWriter_stdout:
  "getWriter [] w = (Inr (bufio_new_writer Stdout), println ''Empty output. Using os.Stdout'' w)"
  by (simp add: getWriter_defs)

lemma getWriter_exists:
  "path \<noteq> [] \<Longrightarrow> path \<notin> locked w \<Longrightarrow> path \<in> dom (fs w) \<Longrightarrow>
     getWriter path w = (Inl 1, println ''The file already exists'' w)"
  by (auto simp: getWriter_defs os_stat_def)

lemma getWriter_creates:
  "path \<noteq> [] \<Longrightarrow> path \<notin> locked w \<Longrightarrow> fs w path = None \<Longrightarrow>
     getWriter path w = (Inr (bufio_new_writer (OutFile path)),
        println (''Valid output file. Using file '' @ path) (w\<lparr>fs := (fs w)(path \<mapsto> RegFile [])\<rparr>))"
  by (simp add: getWriter_defs os_stat_def os_create_def)

lemma getWriter_locked:
  "path \<noteq> [] \<Longrightarrow> path \<in> locked w \<Longrightarrow>
     getWriter path w = (Inl 1, println (''open '' @ path @ '': permission denied'') w)"
  by (simp add: getWriter_defs os_stat_def os_create_def)

text \<open>
  Every outcome of \<open>getWriter\<close>, by the branch the code takes: the empty path,
  an existing or inaccessible path, a directory, a fresh file.
\<close>

lemma getWriter_cases:
  assumes "getWriter path w = (res, w')"
  obtains (use_stdout) "path = []" "res = Inr (bufio_new_writer Stdout)"
      "w' = println ''Empty output. Using os.Stdout'' w"
  | (fail) msg where "path \<noteq> []" "res = Inl 1" "w' = println msg w"
  | (created) "path \<noteq> []" "path \<notin> locked w" "fs w path = None"
      "res = Inr (bufio_new_writer (OutFile path))"
      "w' = println (''Valid output file. Using file '' @ path) (w\<lparr>fs := (fs w)(path \<mapsto> RegFile [])\<rparr>)"
  using assms
  by (cases "path = []"; cases "path \<in> locked w"; cases "fs w path")
     (auto simp: getWriter_defs os_stat_def os_create_def split: node.splits)

lemma getWriter_keeps_existing:
  assumes "getWriter path w = (res, w')" and "fs w q = Some nd"
  shows "fs w' q = Some nd"
  using assms(1)
proof (cases rule: getWriter_cases)
  case created
  with assms(2) have "q \<noteq> path" by auto
  with created assms(2) show ?thesis by simp
qed (use assms(2) in simp_all)

lemma getWriter_frame:
  assumes "getWriter path w = (res, w')"
  shows "requests w' = requests w \<and> open_bodies w' = open_bodies w \<and> net w' = net w \<and>
         locked w' = locked w \<and> disk_room w' = disk_room w \<and> stderr w' = stderr w"
  using assms by (cases rule: getWriter_cases) simp_all

lemma getWriter_writer:
  assumes "getWriter path w = (Inr b, w')"
  shows "bw_buf b = [] \<and> bw_err b = None \<and> bw_inv b \<and>
         bw_dest b = (if path = [] then Stdout else OutFile path)"
  using assms by (cases rule: getWriter_cases) (simp_all add: bufio_new_writer_inv)

lemma getWriter_fresh:
  "getWriter path w = (Inr b, w') \<Longrightarrow> path \<noteq> [] \<Longrightarrow> fs w path = None"
  by (cases rule: getWriter_cases) auto

lemma getWriter_exit_code:
  "getWriter path w = (Inl c, w') \<Longrightarrow> c = 1"
  by (cases rule: getWriter_cases) auto

subsection \<open>writeContents\<close>

text \<open>
  Whatever the destination does, \<open>writeContents\<close> delivers a prefix of the
  buffered bytes, the content and the newline, and nothing else; on a destination
  without a limit it delivers all of them.
\<close>

lemma writeContents_prefix:
  "\<exists>X. writeContents c b w = deliver (bw_dest b) X w \<and> prefix X (bw_buf b @ c @ ''\<newline>'')"
proof -
  obtain n1 r1 b1 w1 where wr1: "bufio_write b c w = (n1, r1, b1, w1)"
    by (cases "bufio_write b c w") auto
  obtain n2 r2 b2 w2 where wr2: "bufio_write b1 ''\<newline>'' w1 = (n2, r2, b2, w2)"
    by (cases "bufio_write b1 ''\<newline>'' w1") auto
  obtain r3 b3 w3 where fl: "bufio_flush b2 w2 = (r3, b3, w3)"
    by (cases "bufio_flush b2 w2") auto
  note p1 = bufio_write_post [OF wr1] and p2 = bufio_write_post [OF wr2]
  from p1 obtain X1 where X1: "w1 = deliver (bw_dest b) X1 w" "X1 @ bw_buf b1 = bw_buf b @ take n1 c"
    by blast
  from p2 p1 obtain X2 where X2: "w2 = deliver (bw_dest b) X2 w1"
    "X2 @ bw_buf b2 = bw_buf b1 @ take n2 ''\<newline>''"
    by auto
  from bufio_flush_delivers [OF fl] p2 p1 obtain Y where Y: "w3 = deliver (bw_dest b) Y w2"
    "Y @ bw_buf b3 = bw_buf b2"
    by auto
  have n2: "take n1 c @ take n2 ''\<newline>'' = take (n1 + n2) (c @ ''\<newline>'')"
  proof (cases "r1")
    case None
    with p1 show ?thesis by simp
  next
    case (Some e)
    with p1 have "bw_err b1 = Some e" by simp
    with wr2 have "n2 = 0" by (simp add: bufio_write_sticky)
    with p1 show ?thesis by simp
  qed
  have "(X1 @ X2 @ Y) @ bw_buf b3 = bw_buf b @ take (n1 + n2) (c @ ''\<newline>'')"
    using X1(2) X2(2) Y(2) n2 by (metis append.assoc)
  then have "prefix (X1 @ X2 @ Y) (bw_buf b @ c @ ''\<newline>'')"
    by (metis append_take_drop_id prefixI prefix_order.trans append.assoc)
  moreover have "writeContents c b w = deliver (bw_dest b) (X1 @ X2 @ Y) w"
    using wr1 wr2 fl X1(1) X2(1) Y(1) by (simp add: writeContents_def deliver_append)
  ultimately show ?thesis by blast
qed

lemma writeContents_unlimited:
  assumes "room_of (bw_dest b) w = None" and "bw_err b = None"
  shows "writeContents c b w = deliver (bw_dest b) (bw_buf b @ c @ ''\<newline>'') w"
proof -
  obtain n1 r1 b1 w1 where wr1: "bufio_write b c w = (n1, r1, b1, w1)"
    by (cases "bufio_write b c w") auto
  obtain n2 r2 b2 w2 where wr2: "bufio_write b1 ''\<newline>'' w1 = (n2, r2, b2, w2)"
    by (cases "bufio_write b1 ''\<newline>'' w1") auto
  obtain r3 b3 w3 where fl: "bufio_flush b2 w2 = (r3, b3, w3)"
    by (cases "bufio_flush b2 w2") auto
  from bufio_write_post [OF wr1] assms have r1: "r1 = None" "bw_err b1 = None"
    "room_of (bw_dest b1) w1 = None" "bw_dest b1 = bw_dest b" "n1 = length c"
    by auto
  from bufio_write_post [OF wr2] r1 have r2: "bw_err b2 = None"
    "room_of (bw_dest b2) w2 = None" "bw_dest b2 = bw_dest b" "n2 = 1"
    by auto
  from bufio_flush_post [OF fl] r2 have w3: "w3 = bw_abs b2 w2" by auto
  have "bw_abs b2 w2 = deliver (bw_dest b) ''\<newline>'' (deliver (bw_dest b) c (bw_abs b w))"
    using bufio_write_abs [OF wr1] bufio_write_abs [OF wr2] r1 r2 by simp
  then show ?thesis
    using wr1 wr2 fl w3 by (simp add: writeContents_def bw_abs_def deliver_append)
qed

lemma writeContents_frame:
  "requests (writeContents c b w) = requests w \<and> open_bodies (writeContents c b w) = open_bodies w"
  using writeContents_prefix [of c b w] by auto

lemma writeContents_fs_other:
  assumes "bw_dest b \<noteq> OutFile q"
  shows "fs (writeContents c b w) q = fs w q"
proof -
  obtain X where "writeContents c b w = deliver (bw_dest b) X w"
    using writeContents_prefix by blast
  with assms show ?thesis by (cases "bw_dest b") auto
qed

end
