(* ===== verification/Flags.thy ===== *)
theory Flags
  imports Prelude
begin

text \<open>
  Command-line parsing as webfetch gets it from Go's \<open>flag\<close> package: one string
  flag \<open>-o\<close> (default \<open>""\<close>) on \<open>flag.CommandLine\<close>, which is created with
  \<open>ExitOnError\<close>. \<open>parse_one\<close> is \<open>(*FlagSet).parseOne\<close>: it stops at the first
  argument that is not a flag (shorter than two bytes or not starting with
  \<open>-\<close>), consumes \<open>--\<close> and stops, rejects \<open>---x\<close>, \<open>-=x\<close> and \<open>-\<close>\<open>-\<close>,
  splits \<open>-name=value\<close> at the first \<open>=\<close>, answers \<open>-h\<close> and \<open>-help\<close> with
  \<open>ErrHelp\<close>, rejects unknown names, and takes the next argument as the value of
  \<open>-o\<close> when none is attached. \<open>parse_flags\<close> is \<open>(*FlagSet).Parse\<close>'s loop;
  each round consumes at least one argument, which is its termination measure.
\<close>

datatype flag_error =
    ErrHelp
  | BadSyntax string
  | NotDefined string
  | NeedsArg string

datatype parse_step =
    Stop "string list"
  | Seen string "string list"
  | Failed flag_error

definition flag_name_o :: string where
  "flag_name_o = ''o''"

definition split_value :: "string \<Rightarrow> string \<times> string option" where
  "split_value name =
     (if CHR ''='' \<in> set name
      then (takeWhile (\<lambda>c. c \<noteq> CHR ''='') name, Some (drop 1 (dropWhile (\<lambda>c. c \<noteq> CHR ''='') name)))
      else (name, None))"

fun parse_one :: "string list \<Rightarrow> parse_step" where
  "parse_one [] = Stop []"
| "parse_one (s # rest) =
     (if length s < 2 \<or> s ! 0 \<noteq> CHR ''-'' then Stop (s # rest)
      else
        (let num_minuses = (if s ! 1 = CHR ''-'' then 2 else 1)
         in if num_minuses = 2 \<and> length s = 2 then Stop rest
            else
              (let name0 = drop num_minuses s
               in if name0 = [] \<or> name0 ! 0 = CHR ''-'' \<or> name0 ! 0 = CHR ''=''
                  then Failed (BadSyntax s)
                  else
                    (case split_value name0 of
                       (name, value) \<Rightarrow>
                         if name \<noteq> flag_name_o then
                           (if name = ''help'' \<or> name = ''h'' then Failed ErrHelp
                            else Failed (NotDefined name))
                         else
                           (case value of
                              Some v \<Rightarrow> Seen v rest
                            | None \<Rightarrow>
                                (case rest of
                                   [] \<Rightarrow> Failed (NeedsArg name)
                                 | v # rest' \<Rightarrow> Seen v rest'))))))"

lemma parse_one_Seen_shorter:
  "parse_one args = Seen v rest \<Longrightarrow> length rest < length args"
  by (cases args rule: parse_one.cases)
     (auto simp: Let_def split: if_splits prod.splits option.splits list.splits)

function parse_flags :: "string \<Rightarrow> string list \<Rightarrow> flag_error + (string \<times> string list)" where
  "parse_flags out args =
     (case parse_one args of
        Stop rest \<Rightarrow> Inr (out, rest)
      | Failed e \<Rightarrow> Inl e
      | Seen v rest \<Rightarrow> parse_flags v rest)"
  by pat_completeness auto
termination
  by (relation "measure (\<lambda>(out, args). length args)") (auto dest: parse_one_Seen_shorter)

text \<open>\<open>flag.Parse()\<close> on \<open>os.Args[1:]\<close>, with the flag's default \<open>""\<close>.\<close>

definition flag_parse :: "string list \<Rightarrow> flag_error + (string \<times> string list)" where
  "flag_parse args = parse_flags [] args"

text \<open>The message \<open>failf\<close> prints before the usage text; \<open>ErrHelp\<close> prints none.\<close>

fun flag_error_msg :: "flag_error \<Rightarrow> string" where
  "flag_error_msg ErrHelp = []"
| "flag_error_msg (BadSyntax s) = ''bad flag syntax: '' @ s @ ''\<newline>''"
| "flag_error_msg (NotDefined n) = ''flag provided but not defined: -'' @ n @ ''\<newline>''"
| "flag_error_msg (NeedsArg n) = ''flag needs an argument: -'' @ n @ ''\<newline>''"

subsection \<open>Properties of the parse\<close>

lemma parse_one_suffix:
  "(parse_one args = Stop rest \<longrightarrow> suffix rest args) \<and>
   (parse_one args = Seen v rest \<longrightarrow> suffix rest args)"
  by (cases args rule: parse_one.cases)
     (auto simp: Let_def suffix_ConsI split: if_splits prod.splits option.splits list.splits)

lemma parse_flags_suffix:
  "parse_flags out args = Inr (v, rest) \<Longrightarrow> suffix rest args"
proof (induction out args rule: parse_flags.induct)
  case (1 out args)
  show ?case
  proof (cases "parse_one args")
    case (Stop r)
    with "1.prems" parse_one_suffix [of args r] show ?thesis by simp
  next
    case (Seen v' r)
    with "1.prems" have "parse_flags v' r = Inr (v, rest)" by simp
    with "1.IH" [OF Seen] have "suffix rest r" .
    moreover from Seen parse_one_suffix [of args r v'] have "suffix r args" by simp
    ultimately show ?thesis by (rule suffix_order.trans)
  next
    case (Failed e)
    with "1.prems" show ?thesis by simp
  qed
qed

lemma parse_flags_positional:
  "length u < 2 \<or> u ! 0 \<noteq> CHR ''-'' \<Longrightarrow> parse_flags out (u # more) = Inr (out, u # more)"
  by simp

lemma parse_flags_o_next:
  "parse_flags out (''-o'' # p # rest) = parse_flags p rest"
  by (simp add: split_value_def flag_name_o_def)

lemma parse_flags_o_attached:
  "CHR ''='' \<notin> set p \<Longrightarrow> parse_flags out ((''-o='' @ p) # rest) = parse_flags p rest"
  by (simp add: split_value_def flag_name_o_def)

lemma parse_flags_double_dash_o:
  "parse_flags out (''--o'' # p # rest) = parse_flags p rest"
  by (simp add: split_value_def flag_name_o_def)

lemma parse_flags_terminator:
  "parse_flags out (''--'' # rest) = Inr (out, rest)"
  by simp

lemma parse_flags_help:
  "parse_flags out (''-h'' # rest) = Inl ErrHelp"
  "parse_flags out (''-help'' # rest) = Inl ErrHelp"
  by (simp_all add: split_value_def flag_name_o_def)

lemma flag_parse_help: "flag_parse (''-h'' # rest) = Inl ErrHelp"
  unfolding flag_parse_def by (rule parse_flags_help(1))

text \<open>
  The command lines of the spec's CLI surface come back out of the parse: the
  path given to \<open>-o\<close> (in any of its spellings) and the URL as the one
  positional argument, provided the URL does not itself look like a flag.
\<close>

text \<open>The command lines of the CLI surface parse back to their parts, for any positional argument that does not look like a flag.\<close>

lemma flag_parse_roundtrip:
  assumes "length u < 2 \<or> u ! 0 \<noteq> CHR ''-''"
  shows "flag_parse [u] = Inr ([], [u]) \<and>
         flag_parse [''-o'', p, u] = Inr (p, [u]) \<and>
         flag_parse [''--o'', p, u] = Inr (p, [u]) \<and>
         flag_parse [''-o='' @ p, u] = Inr (p, [u])"
  using assms by (simp add: flag_parse_def split_value_def flag_name_o_def)

end
