(* ===== verification/Url.thy ===== *)
theory Url
  imports Prelude
begin

text \<open>
  URL validation as webfetch gets it from Go's \<open>net/url\<close>: \<open>url.ParseRequestURI\<close>
  (\<open>parse(rawURL, viaRequest = true)\<close> wrapped in a \<open>*url.Error\<close>), with the
  helpers it calls (\<open>stringContainsCTLByte\<close>, \<open>getScheme\<close>,
  \<open>parseAuthority\<close>, \<open>parseHost\<close>, \<open>validOptionalPort\<close>, \<open>validUserinfo\<close>,
  \<open>unescape\<close>, \<open>setPath\<close>) and the inverse direction \<open>(*URL).String()\<close> with
  \<open>escape\<close>, \<open>shouldEscape\<close>, \<open>validEncoded\<close> and \<open>EscapedPath\<close>. A request URI
  has no fragment, so the \<open>Fragment\<close> field is left out. Bytes are \<open>char\<close>s and
  are compared through \<open>byte\<close>, their code.
\<close>

abbreviation byte :: "char \<Rightarrow> nat" where
  "byte c \<equiv> of_char c"

datatype encoding =
    EncodePath | EncodePathSegment | EncodeHost | EncodeZone
  | EncodeUserPassword | EncodeQueryComponent | EncodeFragment

datatype userinfo = User string | UserPassword string string

record url =
  url_scheme :: string
  url_opaque :: string
  url_user :: "userinfo option"
  url_host :: string
  url_path :: string
  url_raw_path :: string
  url_omit_host :: bool
  url_force_query :: bool
  url_raw_query :: string

definition empty_url :: url where
  "empty_url = \<lparr>url_scheme = [], url_opaque = [], url_user = None, url_host = [], url_path = [],
     url_raw_path = [], url_omit_host = False, url_force_query = False, url_raw_query = []\<rparr>"

subsection \<open>Strings and bytes\<close>

definition is_alnum :: "char \<Rightarrow> bool" where
  "is_alnum c \<longleftrightarrow> (97 \<le> byte c \<and> byte c \<le> 122) \<or> (65 \<le> byte c \<and> byte c \<le> 90) \<or> (48 \<le> byte c \<and> byte c \<le> 57)"

definition is_digit :: "char \<Rightarrow> bool" where
  "is_digit c \<longleftrightarrow> 48 \<le> byte c \<and> byte c \<le> 57"

definition ishex :: "char \<Rightarrow> bool" where
  "ishex c \<longleftrightarrow> is_digit c \<or> (97 \<le> byte c \<and> byte c \<le> 102) \<or> (65 \<le> byte c \<and> byte c \<le> 70)"

definition unhex :: "char \<Rightarrow> nat" where
  "unhex c = (if is_digit c then byte c - 48 else if 97 \<le> byte c \<and> byte c \<le> 102 then byte c - 87
              else if 65 \<le> byte c \<and> byte c \<le> 70 then byte c - 55 else 0)"

definition upperhex :: "nat \<Rightarrow> char" where
  "upperhex n = ''0123456789ABCDEF'' ! n"

text \<open>\<open>strconv.Quote\<close> for the bytes that reach it (bytes from 0x80 up are kept).\<close>

definition backslash :: char where
  "backslash = CHR 0x5C"

definition dquote :: char where
  "dquote = CHR 0x22"

fun quote_byte :: "char \<Rightarrow> string" where
  "quote_byte c =
     (if c = dquote then [backslash, dquote] else if c = backslash then [backslash, backslash]
      else if byte c = 7 then backslash # ''a'' else if byte c = 8 then backslash # ''b''
      else if byte c = 12 then backslash # ''f'' else if byte c = 10 then backslash # ''n''
      else if byte c = 13 then backslash # ''r'' else if byte c = 9 then backslash # ''t''
      else if byte c = 11 then backslash # ''v''
      else if byte c < 32 \<or> byte c = 127
        then backslash # ''x'' @ [''0123456789abcdef'' ! (byte c div 16), ''0123456789abcdef'' ! (byte c mod 16)]
      else [c])"

definition go_quote :: "string \<Rightarrow> string" where
  "go_quote s = dquote # concat (map quote_byte s) @ [dquote]"

definition str_index :: "char \<Rightarrow> string \<Rightarrow> nat option" where
  "str_index c s = (if c \<in> set s then Some (length (takeWhile (\<lambda>x. x \<noteq> c) s)) else None)"

definition str_last_index :: "char \<Rightarrow> string \<Rightarrow> nat option" where
  "str_last_index c s =
     (if c \<in> set s then Some (length s - 1 - length (takeWhile (\<lambda>x. x \<noteq> c) (rev s))) else None)"

fun index_sub :: "string \<Rightarrow> string \<Rightarrow> nat option" where
  "index_sub pat [] = (if pat = [] then Some 0 else None)"
| "index_sub pat (c # s) =
     (if prefix pat (c # s) then Some 0 else map_option Suc (index_sub pat s))"

definition cut_at :: "char \<Rightarrow> string \<Rightarrow> string \<times> string" where
  "cut_at c s = (case str_index c s of None \<Rightarrow> (s, []) | Some i \<Rightarrow> (take i s, drop (Suc i) s))"

definition to_lower :: "string \<Rightarrow> string" where
  "to_lower s = map (\<lambda>c. if 65 \<le> byte c \<and> byte c \<le> 90 then char_of (byte c + 32) else c) s"

definition contains_ctl :: "string \<Rightarrow> bool" where
  "contains_ctl s \<longleftrightarrow> (\<exists>c \<in> set s. byte c < 32 \<or> byte c = 127)"

subsection \<open>Escaping\<close>

definition should_escape :: "char \<Rightarrow> encoding \<Rightarrow> bool" where
  "should_escape c mode =
     (if is_alnum c then False
      else if (mode = EncodeHost \<or> mode = EncodeZone) \<and> c \<in> set ''!$&()*+,;=:[]<>'' \<union> {CHR 0x27, dquote}
        then False
      else if c \<in> set ''-_.~'' then False
      else if c \<in> set ''$&+,/:;=?@'' then
        (case mode of
           EncodePath \<Rightarrow> c = CHR ''?''
         | EncodePathSegment \<Rightarrow> c \<in> set ''/;,?''
         | EncodeUserPassword \<Rightarrow> c \<in> set ''@/?:''
         | EncodeQueryComponent \<Rightarrow> True
         | EncodeFragment \<Rightarrow> False
         | _ \<Rightarrow> True)
      else if mode = EncodeFragment \<and> c \<in> set ''!()*'' then False
      else True)"

text \<open>
  The check loop of \<open>unescape\<close>: every \<open>%\<close> starts two hex digits; in a host,
  an escape may only encode a byte from 0x80 up, or be \<open>%25\<close>; in a zone, only
  a byte a host may hold, a space, or \<open>%25\<close>; in both, a plain ASCII byte must be
  one the host may hold. The result is the error Go returns, if any.
\<close>

fun unescape_check :: "encoding \<Rightarrow> string \<Rightarrow> errmsg option" where
  "unescape_check mode [] = None"
| "unescape_check mode (c # s) =
     (if c = CHR ''%'' then
        (if length s < 2 \<or> \<not> ishex (s ! 0) \<or> \<not> ishex (s ! 1)
         then Some (''invalid URL escape '' @ go_quote (take 3 (c # s)))
         else if mode = EncodeHost \<and> unhex (s ! 0) < 8 \<and> take 2 s \<noteq> ''25''
         then Some (''invalid URL escape '' @ go_quote (take 3 (c # s)))
         else if mode = EncodeZone \<and> take 2 s \<noteq> ''25'' \<and> 16 * unhex (s ! 0) + unhex (s ! 1) \<noteq> 32
                 \<and> should_escape (char_of (16 * unhex (s ! 0) + unhex (s ! 1))) EncodeHost
         then Some (''invalid URL escape '' @ go_quote (take 3 (c # s)))
         else unescape_check mode (drop 2 s))
      else if c = CHR ''+'' then unescape_check mode s
      else if (mode = EncodeHost \<or> mode = EncodeZone) \<and> byte c < 128 \<and> should_escape c mode
      then Some (''invalid character '' @ go_quote [c] @ '' in host name'')
      else unescape_check mode s)"

fun unescape_decode :: "encoding \<Rightarrow> string \<Rightarrow> string" where
  "unescape_decode mode [] = []"
| "unescape_decode mode (c # s) =
     (if c = CHR ''%'' \<and> 2 \<le> length s
      then char_of (16 * unhex (s ! 0) + unhex (s ! 1)) # unescape_decode mode (drop 2 s)
      else if c = CHR ''+'' \<and> mode = EncodeQueryComponent then CHR '' '' # unescape_decode mode s
      else c # unescape_decode mode s)"

definition unescape :: "string \<Rightarrow> encoding \<Rightarrow> errmsg + string" where
  "unescape s mode =
     (case unescape_check mode s of Some e \<Rightarrow> Inl e | None \<Rightarrow> Inr (unescape_decode mode s))"

definition escape :: "string \<Rightarrow> encoding \<Rightarrow> string" where
  "escape s mode =
     concat (map (\<lambda>c. if c = CHR '' '' \<and> mode = EncodeQueryComponent then ''+''
                      else if should_escape c mode
                      then [CHR ''%'', upperhex (byte c div 16), upperhex (byte c mod 16)]
                      else [c]) s)"

definition valid_encoded :: "string \<Rightarrow> encoding \<Rightarrow> bool" where
  "valid_encoded s mode =
     (\<forall>c \<in> set s. c \<in> set ''!$&()*+,;=:@[]%'' \<or> c = CHR 0x27 \<or> \<not> should_escape c mode)"

subsection \<open>Parsing\<close>

fun get_scheme_from :: "nat \<Rightarrow> string \<Rightarrow> string \<Rightarrow> errmsg + (string \<times> string)" where
  "get_scheme_from i raw [] = Inr ([], raw)"
| "get_scheme_from i raw (c # cs) =
     (if (97 \<le> byte c \<and> byte c \<le> 122) \<or> (65 \<le> byte c \<and> byte c \<le> 90) then get_scheme_from (Suc i) raw cs
      else if is_digit c \<or> c = CHR ''+'' \<or> c = CHR ''-'' \<or> c = CHR ''.'' then
        (if i = 0 then Inr ([], raw) else get_scheme_from (Suc i) raw cs)
      else if c = CHR '':'' then
        (if i = 0 then Inl ''missing protocol scheme'' else Inr (take i raw, drop (Suc i) raw))
      else Inr ([], raw))"

definition get_scheme :: "string \<Rightarrow> errmsg + (string \<times> string)" where
  "get_scheme raw = get_scheme_from 0 raw raw"

definition valid_optional_port :: "string \<Rightarrow> bool" where
  "valid_optional_port port \<longleftrightarrow>
     port = [] \<or> (port ! 0 = CHR '':'' \<and> (\<forall>c \<in> set (drop 1 port). is_digit c))"

definition parse_host :: "string \<Rightarrow> errmsg + string" where
  "parse_host host =
     (if take 1 host = ''['' then
        (case str_last_index (CHR '']'') host of
           None \<Rightarrow> Inl ''missing ']' in host''
         | Some i \<Rightarrow>
             (let colon_port = drop (Suc i) host in
              if \<not> valid_optional_port colon_port
              then Inl (''invalid port '' @ go_quote colon_port @ '' after host'')
              else
                (case index_sub ''%25'' (take i host) of
                   Some z \<Rightarrow>
                     (case unescape (take z host) EncodeHost of
                        Inl e \<Rightarrow> Inl e
                      | Inr h1 \<Rightarrow>
                          (case unescape (drop z (take i host)) EncodeZone of
                             Inl e \<Rightarrow> Inl e
                           | Inr h2 \<Rightarrow>
                               (case unescape (drop i host) EncodeHost of
                                  Inl e \<Rightarrow> Inl e
                                | Inr h3 \<Rightarrow> Inr (h1 @ h2 @ h3))))
                 | None \<Rightarrow> unescape host EncodeHost)))
      else
        (case str_last_index (CHR '':'') host of
           Some i \<Rightarrow>
             (let colon_port = drop i host in
              if \<not> valid_optional_port colon_port
              then Inl (''invalid port '' @ go_quote colon_port @ '' after host'')
              else unescape host EncodeHost)
         | None \<Rightarrow> unescape host EncodeHost))"

definition valid_userinfo :: "string \<Rightarrow> bool" where
  "valid_userinfo s \<longleftrightarrow> (\<forall>c \<in> set s. is_alnum c \<or> c \<in> set ''-._:~!$&()*+,;=%@'' \<or> c = CHR 0x27)"

definition parse_authority :: "string \<Rightarrow> errmsg + (userinfo option \<times> string)" where
  "parse_authority authority =
     (case str_last_index (CHR ''@'') authority of
        None \<Rightarrow>
          (case parse_host authority of Inl e \<Rightarrow> Inl e | Inr h \<Rightarrow> Inr (None, h))
      | Some i \<Rightarrow>
          (case parse_host (drop (Suc i) authority) of
             Inl e \<Rightarrow> Inl e
           | Inr h \<Rightarrow>
               (let ui = take i authority in
                if \<not> valid_userinfo ui then Inl ''net/url: invalid userinfo''
                else if CHR '':'' \<notin> set ui then
                  (case unescape ui EncodeUserPassword of
                     Inl e \<Rightarrow> Inl e
                   | Inr u \<Rightarrow> Inr (Some (User u), h))
                else
                  (case cut_at (CHR '':'') ui of
                     (un, pw) \<Rightarrow>
                       (case unescape un EncodeUserPassword of
                          Inl e \<Rightarrow> Inl e
                        | Inr u \<Rightarrow>
                            (case unescape pw EncodeUserPassword of
                               Inl e \<Rightarrow> Inl e
                             | Inr p \<Rightarrow> Inr (Some (UserPassword u p), h)))))))"

definition set_path :: "url \<Rightarrow> string \<Rightarrow> errmsg + url" where
  "set_path u p =
     (case unescape p EncodePath of
        Inl e \<Rightarrow> Inl e
      | Inr path \<Rightarrow>
          Inr (u\<lparr>url_path := path, url_raw_path := (if p = escape path EncodePath then [] else p)\<rparr>))"

text \<open>
  \<open>parse(rawURL, true)\<close>. With \<open>viaRequest\<close> the authority is parsed only
  after a scheme, and a reference that starts neither with a scheme nor with
  \<open>/\<close> is refused; a reference that starts with \<open>/\<close> is accepted without one.
\<close>

definition split_query :: "string \<Rightarrow> string \<times> bool \<times> string" where
  "split_query rest =
     (if rest \<noteq> [] \<and> last rest = CHR ''?'' \<and> count_list rest (CHR ''?'') = 1
      then (butlast rest, True, [])
      else (case cut_at (CHR ''?'') rest of (r, q) \<Rightarrow> (r, False, q)))"

definition parse_request :: "string \<Rightarrow> errmsg + url" where
  "parse_request raw =
     (if contains_ctl raw then Inl ''net/url: invalid control character in URL''
      else if raw = [] then Inl ''empty url''
      else if raw = ''*'' then Inr (empty_url\<lparr>url_path := ''*''\<rparr>)
      else
        (case get_scheme raw of
           Inl e \<Rightarrow> Inl e
         | Inr (sch, rest0) \<Rightarrow>
             (let scheme = to_lower sch in
              case split_query rest0 of
                (rest, fq, rq) \<Rightarrow>
                  (let u0 = empty_url\<lparr>url_scheme := scheme, url_force_query := fq, url_raw_query := rq\<rparr> in
                   if take 1 rest \<noteq> ''/'' then
                     (if scheme \<noteq> [] then Inr (u0\<lparr>url_opaque := rest\<rparr>)
                      else Inl ''invalid URI for request'')
                   else if scheme \<noteq> [] \<and> take 2 rest = ''//'' then
                     (let authority0 = drop 2 rest;
                          (authority, rest') = (case str_index (CHR ''/'') authority0 of
                                                  None \<Rightarrow> (authority0, [])
                                                | Some i \<Rightarrow> (take i authority0, drop i authority0))
                      in case parse_authority authority of
                           Inl e \<Rightarrow> Inl e
                         | Inr (user, host) \<Rightarrow> set_path (u0\<lparr>url_user := user, url_host := host\<rparr>) rest')
                   else set_path (u0\<lparr>url_omit_host := (scheme \<noteq> [])\<rparr>) rest))))"

definition parse_request_uri :: "string \<Rightarrow> errmsg + url" where
  "parse_request_uri raw =
     (case parse_request raw of
        Inl e \<Rightarrow> Inl (''parse '' @ go_quote raw @ '': '' @ e)
      | Inr u \<Rightarrow> Inr u)"

subsection \<open>Printing\<close>

fun userinfo_string :: "userinfo \<Rightarrow> string" where
  "userinfo_string (User n) = escape n EncodeUserPassword"
| "userinfo_string (UserPassword n p) = escape n EncodeUserPassword @ '':'' @ escape p EncodeUserPassword"

definition escaped_path :: "url \<Rightarrow> string" where
  "escaped_path u =
     (if url_raw_path u \<noteq> [] \<and> valid_encoded (url_raw_path u) EncodePath
         \<and> unescape (url_raw_path u) EncodePath = Inr (url_path u)
      then url_raw_path u
      else if url_path u = ''*'' then ''*''
      else escape (url_path u) EncodePath)"

definition url_string :: "url \<Rightarrow> string" where
  "url_string u =
     (let pre = (if url_scheme u \<noteq> [] then url_scheme u @ '':'' else []);
          query = (if url_force_query u \<or> url_raw_query u \<noteq> [] then ''?'' @ url_raw_query u else [])
      in if url_opaque u \<noteq> [] then pre @ url_opaque u @ query
         else
           (let auth = (if url_scheme u \<noteq> [] \<or> url_host u \<noteq> [] \<or> url_user u \<noteq> None then
                          (if url_omit_host u \<and> url_host u = [] \<and> url_user u = None then []
                           else (if url_host u \<noteq> [] \<or> url_path u \<noteq> [] \<or> url_user u \<noteq> None then ''//'' else [])
                                @ (case url_user u of None \<Rightarrow> [] | Some ui \<Rightarrow> userinfo_string ui @ ''@'')
                                @ (if url_host u \<noteq> [] then escape (url_host u) EncodeHost else []))
                        else []);
                path = escaped_path u;
                slash = (if path \<noteq> [] \<and> path ! 0 \<noteq> CHR ''/'' \<and> url_host u \<noteq> [] then ''/'' else []);
                dot = (if pre @ auth @ slash = [] \<and> CHR '':'' \<in> set (fst (cut_at (CHR ''/'') path))
                       then ''./'' else [])
            in pre @ auth @ slash @ dot @ path @ query))"

subsection \<open>Properties of the parser\<close>

lemma get_scheme_from_no_colon:
  "CHR '':'' \<notin> set cs \<Longrightarrow> get_scheme_from i raw cs = Inr ([], raw)"
  by (induction cs arbitrary: i) auto

lemma split_query_prefix:
  assumes "split_query s = (rest, fq, rq)"
  shows "prefix rest s"
proof (cases "s \<noteq> [] \<and> last s = CHR ''?'' \<and> count_list s (CHR ''?'') = 1")
  case True
  with assms have "rest = butlast s" by (simp add: split_query_def)
  then show ?thesis by (simp add: prefix_order.trans [OF _ prefix_order.refl] butlast_conv_take take_is_prefix)
next
  case False
  with assms have "rest = fst (cut_at (CHR ''?'') s)"
    by (auto simp: split_query_def split: prod.splits)
  then show ?thesis
    by (auto simp: cut_at_def take_is_prefix split: option.splits)
qed

lemma unescape_check_no_percent:
  "CHR ''%'' \<notin> set s \<Longrightarrow> mode \<noteq> EncodeHost \<Longrightarrow> mode \<noteq> EncodeZone \<Longrightarrow> unescape_check mode s = None"
  by (induction mode s rule: unescape_check.induct) auto

lemma prefix_take1:
  "prefix r s \<Longrightarrow> r \<noteq> [] \<Longrightarrow> take 1 r = take 1 s"
  by (metis One_nat_def append_take_drop_id prefix_def take_Suc take_eq_Nil append_Cons list.exhaust
            take0 take_Suc_Cons)

text \<open>Strings without a colon that do not start with \<open>/\<close> (other than \<open>*\<close>) are refused.\<close>

lemma parse_request_uri_rejects_schemeless:
  assumes "CHR '':'' \<notin> set s" and "take 1 s \<noteq> ''/''" and "s \<noteq> ''*''"
  shows "\<exists>e. parse_request_uri s = Inl e"
proof (cases "contains_ctl s \<or> s = []")
  case True
  then show ?thesis by (auto simp: parse_request_uri_def parse_request_def)
next
  case False
  obtain rest fq rq where sq: "split_query s = (rest, fq, rq)" by (cases "split_query s") auto
  have "take 1 rest \<noteq> ''/''"
  proof (cases "rest = []")
    case False
    from prefix_take1 [OF split_query_prefix [OF sq] False] assms(2) show ?thesis by simp
  qed simp
  moreover have "get_scheme s = Inr ([], s)"
    using assms(1) by (simp add: get_scheme_def get_scheme_from_no_colon)
  ultimately show ?thesis
    using False assms(3) sq by (simp add: parse_request_uri_def parse_request_def to_lower_def Let_def)
qed

text \<open>A string that starts with \<open>/\<close> and has no control byte and no \<open>%\<close> is accepted as a URL with neither scheme nor host.\<close>

lemma parse_request_uri_accepts_path_only:
  assumes "\<not> contains_ctl s" and "CHR ''%'' \<notin> set s"
  shows "\<exists>u. parse_request_uri (CHR ''/'' # s) = Inr u \<and> url_scheme u = [] \<and> url_host u = []"
proof -
  obtain rest fq rq where sq: "split_query (CHR ''/'' # s) = (rest, fq, rq)"
    by (cases "split_query (CHR ''/'' # s)") auto
  have pre: "prefix rest (CHR ''/'' # s)" by (rule split_query_prefix [OF sq])
  have "rest \<noteq> []"
  proof
    assume "rest = []"
    with sq show False
      by (auto simp: split_query_def cut_at_def str_index_def split: if_splits option.splits)
  qed
  from prefix_take1 [OF pre this] have slash: "take 1 rest = ''/''" by simp
  have "set rest \<subseteq> set (CHR ''/'' # s)" by (rule set_mono_prefix [OF pre])
  with assms(2) have "CHR ''%'' \<notin> set rest" by auto
  then have "unescape_check EncodePath rest = None" by (simp add: unescape_check_no_percent)
  moreover have "get_scheme (CHR ''/'' # s) = Inr ([], CHR ''/'' # s)"
    by (simp add: get_scheme_def)
  moreover have "CHR ''/'' # s \<noteq> ''*''" by simp
  ultimately show ?thesis
    using assms(1) sq slash
    by (simp add: parse_request_uri_def parse_request_def to_lower_def set_path_def unescape_def
        empty_url_def contains_ctl_def)
qed

subsection \<open>Round trip of simple absolute URLs\<close>

text \<open>
  A URL \<open>scheme://host/path\<close> whose scheme is lower-case letters and whose host
  and path use only unreserved characters parses to the URL with these three
  parts, and \<open>String()\<close> prints it back to the same text: \<open>http.Get\<close> requests
  exactly the string the user gave.
\<close>

lemma not_should_escape_unreserved:
  assumes "is_alnum c \<or> c \<in> set ''-._~''"
  shows "\<not> should_escape c mode"
proof (cases "is_alnum c")
  case True
  then show ?thesis by (simp add: should_escape_def)
next
  case False
  with assms have "c = CHR ''-'' \<or> c = CHR ''.'' \<or> c = CHR ''_'' \<or> c = CHR ''~''" by auto
  then show ?thesis by (elim disjE) (simp_all add: should_escape_def)
qed

lemma escape_plain:
  "\<forall>c \<in> set s. \<not> should_escape c mode \<Longrightarrow> mode \<noteq> EncodeQueryComponent \<Longrightarrow> escape s mode = s"
  by (induction s) (auto simp: escape_def)

lemma unescape_plain:
  assumes "\<forall>c \<in> set s. c \<noteq> CHR ''%'' \<and> c \<noteq> CHR ''+'' \<and> \<not> should_escape c mode"
  shows "unescape s mode = Inr s"
proof -
  have "unescape_check mode s = None" using assms by (induction s) auto
  moreover have "unescape_decode mode s = s" using assms by (induction s) auto
  ultimately show ?thesis by (simp add: unescape_def)
qed

lemma get_scheme_from_letters:
  "\<forall>c \<in> set sch. 97 \<le> byte c \<and> byte c \<le> 122 \<Longrightarrow>
   get_scheme_from i raw (sch @ CHR '':'' # rest) =
     (if i + length sch = 0 then Inl ''missing protocol scheme''
      else Inr (take (i + length sch) raw, drop (Suc (i + length sch)) raw))"
  by (induction sch arbitrary: i) (auto simp: is_digit_def)

lemma unreserved_no_escape:
  "\<forall>c \<in> set s. is_alnum c \<or> c \<in> set ''-._~'' \<Longrightarrow> \<forall>c \<in> set s. \<not> should_escape c mode"
  using not_should_escape_unreserved by metis

lemma path_chars_no_escape:
  assumes "\<forall>c \<in> set s. is_alnum c \<or> c \<in> set ''-._~/''"
  shows "\<forall>c \<in> set s. \<not> should_escape c EncodePath"
proof
  fix c assume "c \<in> set s"
  with assms have "is_alnum c \<or> c \<in> set ''-._~'' \<or> c = CHR ''/''" by auto
  then show "\<not> should_escape c EncodePath"
    by (auto simp: should_escape_def dest: not_should_escape_unreserved)
qed

lemma unreserved_byte:
  "is_alnum c \<or> c \<in> set ''-._~/'' \<Longrightarrow> 32 \<le> byte c \<and> byte c \<noteq> 127"
  by (auto simp: is_alnum_def)

lemma parse_request_uri_simple:
  assumes sch: "sch \<noteq> []" "\<forall>c \<in> set sch. 97 \<le> byte c \<and> byte c \<le> 122"
    and host: "host \<noteq> []" "\<forall>c \<in> set host. is_alnum c \<or> c \<in> set ''-._~''"
    and path: "path = [] \<or> hd path = CHR ''/''" "\<forall>c \<in> set path. is_alnum c \<or> c \<in> set ''-._~/''"
  shows "parse_request_uri (sch @ ''://'' @ host @ path) =
           Inr (empty_url\<lparr>url_scheme := sch, url_host := host, url_path := path\<rparr>)"
proof -
  define s where "s = sch @ ''://'' @ host @ path"
  have host_ne: "\<forall>c \<in> set host. \<not> should_escape c mode" for mode
    using host(2) by (rule unreserved_no_escape)
  have path_ne: "\<forall>c \<in> set path. \<not> should_escape c EncodePath"
    using path(2) by (rule path_chars_no_escape)
  have host_chars: "c \<in> set host \<Longrightarrow> c \<notin> set ''%+/:@[?''" for c
    using host(2) by (auto simp: is_alnum_def)
  have path_chars: "c \<in> set path \<Longrightarrow> c \<notin> set ''%+?''" for c
    using path(2) by (auto simp: is_alnum_def)
  have ctl: "\<not> contains_ctl s"
  proof -
    have a: "c \<in> set sch \<Longrightarrow> 32 \<le> byte c \<and> byte c \<noteq> 127" for c using sch(2) by fastforce
    have b: "c \<in> set host \<Longrightarrow> 32 \<le> byte c \<and> byte c \<noteq> 127" for c
      using host(2) unreserved_byte by fastforce
    have c: "c \<in> set path \<Longrightarrow> 32 \<le> byte c \<and> byte c \<noteq> 127" for c
      using path(2) unreserved_byte by blast
    have "c \<in> set s \<Longrightarrow> \<not> (byte c < 32 \<or> byte c = 127)" for c
      by (auto simp: s_def dest: a b c)
    then show ?thesis by (auto simp: contains_ctl_def)
  qed
  have gs: "get_scheme s = Inr (sch, ''//'' @ host @ path)"
    using get_scheme_from_letters [OF sch(2), of 0 s "''//'' @ host @ path"] sch(1)
    by (simp add: get_scheme_def s_def)
  have low: "to_lower sch = sch"
    unfolding to_lower_def by (rule map_idI) (use sch(2) in fastforce)
  have q: "CHR ''?'' \<notin> set (''//'' @ host @ path)"
    using host_chars path_chars by auto
  then have sq: "split_query (''//'' @ host @ path) = (''//'' @ host @ path, False, [])"
    by (simp add: split_query_def cut_at_def str_index_def)
  have cut: "(case str_index (CHR ''/'') (host @ path) of
                None \<Rightarrow> (host @ path, []) | Some i \<Rightarrow> (take i (host @ path), drop i (host @ path)))
             = (host, path)"
  proof -
    have nh: "CHR ''/'' \<notin> set host" using host_chars by auto
    show ?thesis
    proof (cases path)
      case Nil
      with nh show ?thesis by (simp add: str_index_def)
    next
      case (Cons c cs)
      with path(1) have "c = CHR ''/''" by simp
      moreover have "takeWhile (\<lambda>x. x \<noteq> CHR ''/'') host = host"
        using nh by (auto simp: takeWhile_eq_all_conv)
      ultimately show ?thesis using Cons nh by (simp add: str_index_def)
    qed
  qed
  have auth: "parse_authority host = Inr (None, host)"
  proof -
    have "CHR ''@'' \<notin> set host" "CHR '':'' \<notin> set host" "take 1 host \<noteq> ''[''"
      using host_chars host(1) by (auto simp: neq_Nil_conv)
    moreover have "unescape host EncodeHost = Inr host"
      using host_chars host_ne by (intro unescape_plain) auto
    ultimately show ?thesis
      by (simp add: parse_authority_def parse_host_def str_last_index_def)
  qed
  have sp: "unescape path EncodePath = Inr path"
    using path_chars path_ne by (intro unescape_plain) auto
  have esc: "escape path EncodePath = path"
    using path_ne by (simp add: escape_plain)
  have "s \<noteq> []" "s \<noteq> ''*''" using sch(1) by (auto simp: s_def)
  then have "parse_request_uri s = Inr (empty_url\<lparr>url_scheme := sch, url_host := host, url_path := path\<rparr>)"
    using ctl gs low sq cut auth sp esc sch(1)
    by (simp add: parse_request_uri_def parse_request_def set_path_def Let_def empty_url_def)
  then show ?thesis by (simp add: s_def)
qed

lemma url_string_simple:
  assumes sch: "sch \<noteq> []"
    and host: "host \<noteq> []" "\<forall>c \<in> set host. is_alnum c \<or> c \<in> set ''-._~''"
    and path: "path = [] \<or> hd path = CHR ''/''" "\<forall>c \<in> set path. is_alnum c \<or> c \<in> set ''-._~/''"
  shows "url_string (empty_url\<lparr>url_scheme := sch, url_host := host, url_path := path\<rparr>) =
           sch @ ''://'' @ host @ path"
proof -
  have eh: "escape host EncodeHost = host"
    using unreserved_no_escape [OF host(2)] by (simp add: escape_plain)
  have ep: "escape path EncodePath = path"
    using path_chars_no_escape [OF path(2)] by (simp add: escape_plain)
  have "path \<noteq> ''*''" using path(1) by auto
  with ep have "escaped_path (empty_url\<lparr>url_scheme := sch, url_host := host, url_path := path\<rparr>) = path"
    by (simp add: escaped_path_def empty_url_def)
  moreover have "path = [] \<or> path ! 0 = CHR ''/''" using path(1) by (cases path) auto
  ultimately show ?thesis
    using sch host(1) eh by (simp add: url_string_def Let_def empty_url_def)
qed

end
