(* ===== verification/Fetch.thy ===== *)
theory Fetch
  imports World Url
begin

text \<open>
  The fetcher as webfetch gets it from Go's \<open>net/http\<close> and \<open>io/ioutil\<close>:
  \<open>http_get\<close> is \<open>http.Get(dataURL.String())\<close>. The transport refuses a scheme
  other than \<open>http\<close>/\<open>https\<close> and an empty host before touching the network;
  otherwise the request is sent (recorded in \<open>requests\<close>) and the server's
  behaviour for that URL decides: a transport error, or a response whose body is
  then open. Errors are wrapped as \<open>*url.Error\<close> with operation \<open>Get\<close> and the
  URL with its password replaced by \<open>***\<close>. Redirects and status codes are the
  server's business: whatever response the client ends with is the \<open>response\<close>.
  \<open>read_all\<close> is \<open>ioutil.ReadAll(response.Body)\<close>: the bytes read and the error
  that stopped it, if any. \<open>http.Get\<close> parses \<open>dataURL.String()\<close> again; the
  model reads scheme and host from the already parsed value.
\<close>

fun replace_first :: "string \<Rightarrow> string \<Rightarrow> string \<Rightarrow> string" where
  "replace_first pat rep [] = (if pat = [] then rep else [])"
| "replace_first pat rep (c # cs) =
     (if prefix pat (c # cs) then rep @ drop (length pat) (c # cs) else c # replace_first pat rep cs)"

definition strip_password :: "url \<Rightarrow> string" where
  "strip_password u =
     (case url_user u of
        Some (UserPassword n p) \<Rightarrow>
          replace_first (userinfo_string (UserPassword n p) @ ''@'') (n @ '':***@'') (url_string u)
      | _ \<Rightarrow> url_string u)"

definition get_error :: "url \<Rightarrow> errmsg \<Rightarrow> errmsg" where
  "get_error u e = ''Get '' @ go_quote (strip_password u) @ '': '' @ e"

definition http_get :: "url \<Rightarrow> world \<Rightarrow> (errmsg + response) \<times> world" where
  "http_get u w =
     (if url_scheme u \<noteq> ''http'' \<and> url_scheme u \<noteq> ''https''
      then (Inl (get_error u (''unsupported protocol scheme '' @ go_quote (url_scheme u))), w)
      else if url_host u = [] then (Inl (get_error u ''http: no Host in request URL''), w)
      else
        (let s = url_string u; w1 = w\<lparr>requests := requests w @ [s]\<rparr> in
         case net w s of
           Refused e \<Rightarrow> (Inl (get_error u e), w1)
         | r \<Rightarrow> (Inr r, w1\<lparr>open_bodies := Suc (open_bodies w1)\<rparr>)))"

fun read_all :: "response \<Rightarrow> bytes \<times> errmsg option" where
  "read_all (Served b) = (b, None)"
| "read_all (Truncated b e) = (b, Some e)"
| "read_all (Refused e) = ([], Some e)"

lemma http_get_frame [frame_simps]:
  assumes "http_get u w = (r, w')"
  shows "stdout w' = stdout w \<and> fs w' = fs w \<and> stdout_room w' = stdout_room w \<and>
         disk_room w' = disk_room w \<and> net w' = net w \<and> locked w' = locked w"
  using assms by (auto simp: http_get_def Let_def split: if_splits response.splits)

lemma http_get_no_request:
  "(url_scheme u \<noteq> ''http'' \<and> url_scheme u \<noteq> ''https'') \<or> url_host u = [] \<Longrightarrow>
     http_get u w = (r, w') \<Longrightarrow> w' = w \<and> (\<exists>e. r = Inl e)"
  by (auto simp: http_get_def split: if_splits)

lemma http_get_sends:
  "url_scheme u \<in> {''http'', ''https''} \<Longrightarrow> url_host u \<noteq> [] \<Longrightarrow> http_get u w = (r, w') \<Longrightarrow>
     requests w' = requests w @ [url_string u] \<and>
     (case net w (url_string u) of
        Refused e \<Rightarrow> r = Inl (get_error u e) \<and> open_bodies w' = open_bodies w
      | resp \<Rightarrow> r = Inr resp \<and> open_bodies w' = Suc (open_bodies w))"
  by (auto simp: http_get_def Let_def split: response.splits)

lemma http_get_Inr:
  "http_get u w = (Inr resp, w') \<Longrightarrow>
     requests w' = requests w @ [url_string u] \<and> open_bodies w' = Suc (open_bodies w) \<and> fs w' = fs w"
  by (auto simp: http_get_def Let_def split: if_splits response.splits)

lemma http_get_requests:
  "http_get u w = (r, w') \<Longrightarrow> requests w' = requests w \<or> requests w' = requests w @ [url_string u]"
  by (auto simp: http_get_def Let_def split: if_splits response.splits)

end
