(* ===== verification/Webfetch.thy ===== *)
theory Webfetch
  imports Output Flags Fetch
begin

text \<open>
  \<open>main\<close> of src/main.go (lines 45--88), one definition per block of the code,
  composed with \<open>bind_step\<close> in the order the code runs them: declare \<open>-o\<close> and
  parse the command line (46--51), require exactly one positional argument
  (54--58), validate it with \<open>url.ParseRequestURI\<close> (60--65), resolve the output
  (\<open>getWriter\<close>, 69), send the request (71--76), read the body (78--84), write it
  (87). The body's deferred \<open>Close\<close> (80) runs only when \<open>main\<close> returns, after
  \<open>writeContents\<close>; every \<open>os.Exit\<close> skips it. \<open>main\<close> gives the exit status
  and the final world; \<open>prog\<close> is \<open>os.Args[0]\<close>, \<open>args\<close> is \<open>os.Args[1:]\<close>.
\<close>

definition output_flag_usage :: string where
  "output_flag_usage = ''Output file (leave blank to output to stdout)''"

text \<open>What the flag package prints for this flag set when parsing fails or help is asked.\<close>

definition usage :: "string \<Rightarrow> string" where
  "usage prog = ''Usage of '' @ prog @ '':'' @ ''\<newline>'' @ ''  -'' @ flag_name_o @ '' string'' @ ''\<newline>''
                @ ''    '' @ [CHR 0x09] @ output_flag_usage @ ''\<newline>''"

definition parse_command_line :: "string \<Rightarrow> string list \<Rightarrow> world \<Rightarrow> (string \<times> string list) outcome" where
  "parse_command_line prog args w =
     (case flag_parse args of
        Inl ErrHelp \<Rightarrow> (Inl 0, eprint (usage prog) w)
      | Inl e \<Rightarrow> (Inl 2, eprint (flag_error_msg e @ usage prog) w)
      | Inr r \<Rightarrow> (Inr r, w))"

definition check_nargs :: "string list \<Rightarrow> world \<Rightarrow> string outcome" where
  "check_nargs pos w =
     (if length pos \<noteq> 1 then (Inl 1, println ''Url must be specified'' w)
      else (Inr (pos ! 0), w))"

definition validate_url :: "string \<Rightarrow> world \<Rightarrow> url outcome" where
  "validate_url arg w =
     (case parse_request_uri arg of
        Inl err \<Rightarrow> (Inl 1, println err w)
      | Inr u \<Rightarrow> (Inr u, w))"

definition fetch_page :: "url \<Rightarrow> world \<Rightarrow> response outcome" where
  "fetch_page u w =
     (case http_get u w of
        (Inl err, w1) \<Rightarrow> (Inl 1, println err w1)
      | (Inr resp, w1) \<Rightarrow> (Inr resp, w1))"

definition read_response :: "response \<Rightarrow> world \<Rightarrow> bytes outcome" where
  "read_response resp w =
     (case read_all resp of
        (_, Some err) \<Rightarrow> (Inl 1, println err w)
      | (content, None) \<Rightarrow> (Inr content, w))"

definition run_main :: "string \<Rightarrow> string list \<Rightarrow> world \<Rightarrow> unit outcome" where
  "run_main prog args w0 =
     bind_step (parse_command_line prog args w0) (\<lambda>(output_path, pos) w1.
     bind_step (check_nargs pos w1) (\<lambda>arg w2.
     bind_step (validate_url arg w2) (\<lambda>data_url w3.
     bind_step (getWriter output_path w3) (\<lambda>writer w4.
     bind_step (fetch_page data_url w4) (\<lambda>response w5.
     bind_step (read_response response w5) (\<lambda>content w6.
       (Inr (), body_close (writeContents content writer w6))))))))"

definition main :: "string \<Rightarrow> string list \<Rightarrow> world \<Rightarrow> exit_code \<times> world" where
  "main prog args w =
     (case run_main prog args w of
        (Inl c, w') \<Rightarrow> (c, w')
      | (Inr _, w') \<Rightarrow> (0, w'))"

lemmas main_defs = main_def run_main_def parse_command_line_def check_nargs_def validate_url_def
  fetch_page_def read_response_def

subsection \<open>The steps\<close>

lemma parse_command_line_ok:
  "flag_parse args = Inr r \<Longrightarrow> parse_command_line prog args w = (Inr r, w)"
  by (simp add: parse_command_line_def)

lemma check_nargs_one [simp]: "check_nargs [a] w = (Inr a, w)"
  by (simp add: check_nargs_def)

lemma validate_url_ok:
  "parse_request_uri a = Inr u \<Longrightarrow> validate_url a w = (Inr u, w)"
  by (simp add: validate_url_def)

lemma fetch_page_sent:
  assumes "url_scheme u \<in> {''http'', ''https''}" and "url_host u \<noteq> []"
    and "net w (url_string u) = resp" and "\<forall>e. resp \<noteq> Refused e"
  shows "fetch_page u w = (Inr resp, w\<lparr>requests := requests w @ [url_string u],
                                         open_bodies := Suc (open_bodies w)\<rparr>)"
  using assms by (cases resp) (auto simp: fetch_page_def http_get_def Let_def)

lemma read_response_served [simp]: "read_response (Served b) w = (Inr b, w)"
  by (simp add: read_response_def)

lemma read_response_truncated [simp]:
  "read_response (Truncated b e) w = (Inl 1, println e w)"
  by (simp add: read_response_def)

text \<open>
  The path on which nothing fails: after a parse that yields one positional
  argument, a URL that validates, a writer, and a served body, \<open>main\<close> writes the
  body, closes it and returns 0, whatever the writes report.
\<close>

lemma main_served:
  assumes flags: "flag_parse args = Inr (opath, [arg])"
    and valid: "parse_request_uri arg = Inr u"
    and writer: "getWriter opath w = (Inr wr, w1)"
    and http: "url_scheme u \<in> {''http'', ''https''}" "url_host u \<noteq> []"
    and served: "net w (url_string u) = Served body"
  shows "main prog args w =
           (0, body_close (writeContents body wr
                 (w1\<lparr>requests := requests w1 @ [url_string u], open_bodies := Suc (open_bodies w1)\<rparr>)))"
proof -
  have "net w1 = net w" using getWriter_frame [OF writer] by simp
  with served have "net w1 (url_string u) = Served body" by simp
  then have "fetch_page u w1 = (Inr (Served body), w1\<lparr>requests := requests w1 @ [url_string u],
                                                  open_bodies := Suc (open_bodies w1)\<rparr>)"
    using http by (intro fetch_page_sent) auto
  then show ?thesis
    using flags valid writer
    by (simp add: main_def run_main_def parse_command_line_ok validate_url_ok)
qed

text \<open>Every way \<open>main\<close> ends, one case per \<open>os.Exit\<close> of the code and one for the return.\<close>

lemma main_cases:
  assumes "main prog args w = (c, w')"
  obtains (help_asked) "flag_parse args = Inl ErrHelp" "c = 0" "w' = eprint (usage prog) w"
  | (bad_flags) e where "flag_parse args = Inl e" "e \<noteq> ErrHelp" "c = 2"
      "w' = eprint (flag_error_msg e @ usage prog) w"
  | (wrong_nargs) opath pos where "flag_parse args = Inr (opath, pos)" "length pos \<noteq> 1" "c = 1"
      "w' = println ''Url must be specified'' w"
  | (bad_url) opath arg err where "flag_parse args = Inr (opath, [arg])"
      "parse_request_uri arg = Inl err" "c = 1" "w' = println err w"
  | (no_writer) opath arg u where "flag_parse args = Inr (opath, [arg])"
      "parse_request_uri arg = Inr u" "getWriter opath w = (Inl c, w')"
  | (get_failed) opath arg u wr w1 err w2 where "flag_parse args = Inr (opath, [arg])"
      "parse_request_uri arg = Inr u" "getWriter opath w = (Inr wr, w1)"
      "http_get u w1 = (Inl err, w2)" "c = 1" "w' = println err w2"
  | (read_failed) opath arg u wr w1 resp w2 b err where "flag_parse args = Inr (opath, [arg])"
      "parse_request_uri arg = Inr u" "getWriter opath w = (Inr wr, w1)"
      "http_get u w1 = (Inr resp, w2)" "read_all resp = (b, Some err)" "c = 1" "w' = println err w2"
  | (written) opath arg u wr w1 resp w2 content where "flag_parse args = Inr (opath, [arg])"
      "parse_request_uri arg = Inr u" "getWriter opath w = (Inr wr, w1)"
      "http_get u w1 = (Inr resp, w2)" "read_all resp = (content, None)" "c = 0"
      "w' = body_close (writeContents content wr w2)"
proof (cases "flag_parse args")
  case (Inl e)
  show ?thesis
  proof (cases "e = ErrHelp")
    case True
    with Inl assms have "c = 0" "w' = eprint (usage prog) w"
      by (simp_all add: main_def run_main_def parse_command_line_def)
    with Inl True show ?thesis by (intro that(1)) simp_all
  next
    case False
    with Inl assms have "c = 2" "w' = eprint (flag_error_msg e @ usage prog) w"
      by (cases e; simp add: main_def run_main_def parse_command_line_def)+
    with Inl False show ?thesis by (intro that(2)) simp_all
  qed
next
  case (Inr r)
  obtain opath pos where flags: "flag_parse args = Inr (opath, pos)" using Inr by (cases r) auto
  show ?thesis
  proof (cases "length pos = 1")
    case False
    with flags assms have "c = 1" "w' = println ''Url must be specified'' w"
      by (simp_all add: main_defs)
    with flags False show ?thesis by (intro that(3)) simp_all
  next
    case True
    then obtain arg where pos: "pos = [arg]" by (cases pos) auto
    note flags1 = flags [unfolded pos]
    show ?thesis
    proof (cases "parse_request_uri arg")
      case (Inl err)
      with flags1 assms have "c = 1" "w' = println err w" by (simp_all add: main_defs)
      with flags1 Inl show ?thesis by (intro that(4)) simp_all
    next
      case (Inr u)
      obtain gres w1 where gw: "getWriter opath w = (gres, w1)" by (cases "getWriter opath w")
      show ?thesis
      proof (cases gres)
        case (Inl c')
        with flags1 Inr gw assms have "c = c'" "w' = w1" by (simp_all add: main_defs)
        with flags1 Inr gw Inl show ?thesis by (intro that(5)) simp_all
      next
        case (Inr wr)
        note gw1 = gw [unfolded Inr]
        obtain hres w2 where hg: "http_get u w1 = (hres, w2)" by (cases "http_get u w1")
        show ?thesis
        proof (cases hres)
          case (Inl err)
          with flags1 \<open>parse_request_uri arg = Inr u\<close> gw1 hg assms
          have "c = 1" "w' = println err w2" by (simp_all add: main_defs)
          with flags1 \<open>parse_request_uri arg = Inr u\<close> gw1 hg Inl show ?thesis
            by (intro that(6)) simp_all
        next
          case (Inr resp)
          note hg1 = hg [unfolded Inr]
          obtain b rerr where ra: "read_all resp = (b, rerr)" by (cases "read_all resp")
          show ?thesis
          proof (cases rerr)
            case (Some err)
            with flags1 \<open>parse_request_uri arg = Inr u\<close> gw1 hg1 ra assms
            have "c = 1" "w' = println err w2" by (simp_all add: main_defs)
            with flags1 \<open>parse_request_uri arg = Inr u\<close> gw1 hg1 ra Some show ?thesis
              by (intro that(7)) simp_all
          next
            case None
            with flags1 \<open>parse_request_uri arg = Inr u\<close> gw1 hg1 ra assms
            have "c = 0" "w' = body_close (writeContents b wr w2)" by (simp_all add: main_defs)
            with flags1 \<open>parse_request_uri arg = Inr u\<close> gw1 hg1 ra None show ?thesis
              by (intro that(8)) simp_all
          qed
        qed
      qed
    qed
  qed
qed

end
