(* ===== verification/Spec2Isabelle.thy ===== *)
theory Spec2Isabelle
  imports Webfetch
begin

text \<open>
  \<^bold>\<open>webfetch, verified.\<close> webfetch (src/main.go, 87 lines of Go) fetches one URL
  and writes the response body, followed by a newline, to standard output or to a
  new file named by \<open>-o\<close>. Its \<open>main\<close> is a straight line of steps, each of which
  may end the process with \<open>os.Exit\<close>: parse the command line, require one
  positional argument, validate it as a request URI, resolve the output
  (\<open>getWriter\<close>), send the request, read the body, write it
  (\<open>writeContents\<close>), close the body.

  \<^bold>\<open>Theories.\<close>
  \<^item> \<open>Prelude\<close>: byte strings (\<open>string\<close>, a \<open>char\<close> is a byte), error messages,
    exit codes, the \<open>frame_simps\<close> collection.
  \<^item> \<open>World\<close>: the environment as a record \<open>world\<close>: standard output and error,
    a file system (\<open>fs\<close>, paths to files or directories), paths that cannot be
    accessed (\<open>locked\<close>), the room left on standard output and on the disk
    (\<open>None\<close>: unlimited), the server's behaviour per URL (\<open>net\<close>), the requests
    sent, the response bodies still open. \<open>os_write\<close> (write(2)), \<open>println\<close>
    (\<open>fmt.Println\<close>), \<open>os_stat\<close>, \<open>os_create\<close>, \<open>body_close\<close> act on it. A step
    of the process has type \<open>'a outcome\<close>: \<open>Inl c\<close> is \<open>os.Exit(c)\<close>;
    \<open>bind_step\<close> sequences steps.
  \<^item> \<open>Bufio\<close>: Go's \<open>bufio.Writer\<close> (\<open>bufio_new_writer\<close>, \<open>bufio_write\<close> with
    its loop \<open>write_loop\<close>, \<open>bufio_flush\<close>) over a world destination, with its
    invariant (\<open>bw_inv\<close>: the buffer never exceeds its size), its abstraction
    (\<open>bw_abs\<close>: the world once the buffer is flushed) and the refinement: a write
    that reports \<open>n\<close> bytes moves the abstraction by exactly the first \<open>n\<close>
    bytes, on every path, errors included. \<open>write_loop\<close> is a \<^theory_text>\<open>function\<close>
    whose termination is proved with a lexicographic measure (error set, input
    left, buffer length).
  \<^item> \<open>Output\<close>: \<open>getWriter\<close> (main.go 15--35, as its three blocks
    \<open>get_stdout_writer\<close>, \<open>check_exists\<close>, \<open>create_output\<close>) and
    \<open>writeContents\<close> (39--43).
  \<^item> \<open>Flags\<close>: Go's \<open>flag\<close> parsing for the one flag \<open>-o\<close>
    (\<open>parse_one\<close>, \<open>parse_flags\<close>, \<open>flag_parse\<close>), terminating by the length
    of the argument list.
  \<^item> \<open>Url\<close>: Go's \<open>url.ParseRequestURI\<close> (\<open>parse_request_uri\<close>, with
    \<open>get_scheme\<close>, \<open>parse_authority\<close>, \<open>parse_host\<close>, \<open>unescape\<close>,
    \<open>set_path\<close>) and \<open>(*URL).String\<close> (\<open>url_string\<close>).
  \<^item> \<open>Fetch\<close>: \<open>http.Get\<close> (\<open>http_get\<close>) and \<open>ioutil.ReadAll\<close> (\<open>read_all\<close>).
  \<^item> \<open>Webfetch\<close>: \<open>main\<close> (45--88) as the blocks \<open>parse_command_line\<close>,
    \<open>check_nargs\<close>, \<open>validate_url\<close>, \<open>getWriter\<close>, \<open>fetch_page\<close>,
    \<open>read_response\<close>, \<open>writeContents\<close>, composed by \<open>run_main\<close>.
  \<^item> this theory: the properties of the whole program, stated on \<open>main\<close>.

  \<^bold>\<open>What is proved.\<close>
  \<^item> The successful runs, as exact final worlds: the body and one newline on
    standard output (C1) or in a new file (C2), and end to end for the absolute
    URLs users type, with the parsers evaluated rather than assumed (C19).
  \<^item> Safety over every command line and world: existing files are never changed
    (C3); at most one request is sent, only for the validated URL (C21); a
    successful run sent one request and closed its body (C7); the exit status is
    0, 1 or 2 (C22).
  \<^item> Every early exit, with its message and status: existing output (C4), wrong
    argument count (C5), invalid URL (C6), help (C11).
  \<^item> The components: \<open>bufio.Writer\<close> refines an unbuffered stream and keeps its
    invariant (C13--C15); the argument resolver reads the CLI surface back (C16) and
    returns a suffix of the command line (C23); the URL validator refuses schemeless
    text (C17), accepts rooted paths (C18), and round-trips simple absolute URLs
    through \<open>String()\<close> (C20).
  \<^item> Where the code departs from the spec, each pinned by a theorem: an empty file
    is left behind when the request fails (C8) or when a relative reference passes
    validation (C12, C18); write and flush errors still give status 0 (C9); a read
    error leaves the body open because \<open>os.Exit\<close> skips the deferred \<open>Close\<close>
    (C10); \<open>-h\<close> exits 0 with no URL (C11).

  \<^bold>\<open>What is not modelled.\<close> Concurrency and the race between the existence check
  and the creation of the file (the program is sequential; the spec accepts the
  race); the contents of HTTP exchanges (the server's behaviour for a URL is given
  by \<open>net\<close>, redirects and status codes included); DNS and timeouts (a transport
  error is a value of \<open>net\<close>); file descriptors (a file is named by its path and
  only written through the one writer); \<open>http.Get\<close>'s re-parse of
  \<open>dataURL.String()\<close> (scheme and host are read from the parsed value; for
  the simple absolute URLs of \<open>validate_url_roundtrip\<close> the re-parse gives the
  same URL); a closed pipe on standard output (Go raises \<open>SIGPIPE\<close> and the
  process dies; the room left on standard output models a full device instead).
  Library code (\<open>fmt\<close>, \<open>os\<close>, \<open>bufio\<close>, \<open>flag\<close>, \<open>net/url\<close>, \<open>net/http\<close>)
  is modelled from the behaviour of the Go standard library as the program uses it.
  No fuel is needed: every loop of the model (\<open>write_loop\<close>, \<open>parse_flags\<close>,
  the scanners of \<open>Url\<close>) terminates by a measure.
\<close>

definition example_url :: url where
  "example_url = empty_url\<lparr>url_scheme := ''http'', url_host := ''example.com'', url_path := ''/''\<rparr>"

definition demo_world :: world where
  "demo_world = \<lparr>stdout = [], stderr = [], fs = [''notes.txt'' \<mapsto> RegFile ''keep''], locked = {},
     stdout_room = None, disk_room = None,
     net = (\<lambda>s. if s = ''http://example.com/'' then Served ''hello'' else Refused ''dial tcp: connection refused''),
     requests = [], open_bodies = 0\<rparr>"

definition unreachable_url :: url where
  "unreachable_url = empty_url\<lparr>url_scheme := ''http'', url_host := ''unreachable.example'', url_path := ''/''\<rparr>"

definition flaky_world :: world where
  "flaky_world = demo_world\<lparr>net := (\<lambda>s. Truncated ''hel'' ''unexpected EOF'')\<rparr>"

definition full_disk_world :: world where
  "full_disk_world = demo_world\<lparr>disk_room := Some 2\<rparr>"

definition index_path_url :: url where
  "index_path_url = empty_url\<lparr>url_path := ''/index.html''\<rparr>"

text \<open>C1. Without \<open>-o\<close>: for one valid http(s) URL whose server serves a body, on an unlimited standard output, \<open>main\<close> exits 0, prints the line \<open>Empty output. Using os.Stdout\<close>, then the body and exactly one newline, sends exactly one request, and changes nothing else (spec section 8, fourth property).\<close>

theorem main_writes_body_to_stdout:
  assumes "flag_parse args = Inr ([], [arg])" and "parse_request_uri arg = Inr u"
    and "url_scheme u \<in> {''http'', ''https''}" and "url_host u \<noteq> []"
    and "net w (url_string u) = Served body" and "stdout_room w = None"
  shows "main prog args w =
           (0, w\<lparr>stdout := stdout w @ ''Empty output. Using os.Stdout\<newline>'' @ body @ ''\<newline>'',
                 requests := requests w @ [url_string u]\<rparr>)"
proof -
  have "getWriter [] w = (Inr (bufio_new_writer Stdout), println ''Empty output. Using os.Stdout'' w)"
    by (rule getWriter_stdout)
  from main_served [OF assms(1,2) this assms(3-5)]
  show ?thesis
    using assms(6)
    by (simp add: writeContents_unlimited room_of_def println_def os_write_def deliver_def body_close_def)
qed

theorem main_writes_body_to_stdout_witness:
  "main ''webfetch'' [''http://example.com/''] demo_world =
     (0, demo_world\<lparr>stdout := ''Empty output. Using os.Stdout\<newline>hello\<newline>'',
                    requests := [''http://example.com/'']\<rparr>)"
proof -
  have u: "parse_request_uri ''http://example.com/'' = Inr example_url" by code_simp
  have s: "url_string example_url = ''http://example.com/''" by code_simp
  have f: "flag_parse [''http://example.com/''] = Inr ([], [''http://example.com/''])" by code_simp
  show ?thesis
    using main_writes_body_to_stdout [OF f u, where w = demo_world and body = "''hello''" and prog = "''webfetch''"] s
    by (simp add: demo_world_def example_url_def)
qed

text \<open>C2. With \<open>-o p\<close> for a path that does not exist: \<open>main\<close> exits 0, creates \<open>p\<close> holding exactly the body and one newline, prints \<open>Valid output file. Using file p\<close>, sends one request and changes nothing else (spec section 8, fifth property).\<close>

theorem main_writes_body_to_new_file:
  assumes "flag_parse args = Inr (p, [arg])" and "parse_request_uri arg = Inr u"
    and "url_scheme u \<in> {''http'', ''https''}" and "url_host u \<noteq> []"
    and "net w (url_string u) = Served body"
    and "p \<noteq> []" and "p \<notin> locked w" and "fs w p = None"
    and "stdout_room w = None" and "disk_room w = None"
  shows "main prog args w =
           (0, w\<lparr>stdout := stdout w @ ''Valid output file. Using file '' @ p @ ''\<newline>'',
                 fs := (fs w)(p \<mapsto> RegFile (body @ ''\<newline>'')),
                 requests := requests w @ [url_string u]\<rparr>)"
proof -
  from getWriter_creates [OF assms(6-8)]
  have gw: "getWriter p w = (Inr (bufio_new_writer (OutFile p)),
              println (''Valid output file. Using file '' @ p) (w\<lparr>fs := (fs w)(p \<mapsto> RegFile [])\<rparr>))" .
  from main_served [OF assms(1,2) gw assms(3-5)]
  show ?thesis
    using assms(9,10)
    by (simp add: writeContents_unlimited room_of_def println_def os_write_def deliver_def body_close_def)
qed

text \<open>C5. When the flags parse and the number of positional arguments is not one, \<open>main\<close> prints \<open>Url must be specified\<close> and exits 1, with no request and no file created (spec 4.1 and section 8).\<close>

theorem main_rejects_wrong_arg_count:
  assumes "flag_parse args = Inr (opath, pos)" and "length pos \<noteq> 1"
  shows "main prog args w = (1, println ''Url must be specified'' w)"
  using assms by (simp add: main_defs)

text \<open>C6. When the positional argument is refused by \<open>url.ParseRequestURI\<close>, \<open>main\<close> prints the parse error and exits 1, with no request and no file created (spec 4.2).\<close>

theorem main_rejects_invalid_url:
  assumes "flag_parse args = Inr (opath, [arg])" and "parse_request_uri arg = Inl err"
  shows "main prog args w = (1, println err w)"
  using assms by (simp add: main_defs)

text \<open>C4. When the \<open>-o\<close> path exists (and can be examined), \<open>main\<close> prints \<open>The file already exists\<close> and exits 1, before any request and without any other change.\<close>

theorem main_refuses_existing_output:
  assumes "flag_parse args = Inr (p, [arg])" and "parse_request_uri arg = Inr u"
    and "p \<noteq> []" and "p \<notin> locked w" and "p \<in> dom (fs w)"
  shows "main prog args w = (1, println ''The file already exists'' w)"
  using assms by (simp add: main_defs getWriter_exists)

text \<open>C11. \<open>-h\<close> makes \<open>main\<close> print the usage text to standard error and exit 0, although no positional argument was given (spec section 8 expects a non-zero status for zero positional arguments).\<close>

theorem main_help_exits_zero:
  "main prog (''-h'' # rest) w = (0, eprint (usage prog) w)"
  by (simp add: main_def run_main_def parse_command_line_def flag_parse_help)

text \<open>C8. With \<open>-o p\<close>, when the request fails in the transport, \<open>main\<close> exits 1 and leaves behind the empty file \<open>p\<close> it created before sending the request (the open question of spec section 9; spec 7 and 8 say nothing is written).\<close>

theorem main_transport_error_leaves_empty_file:
  assumes "flag_parse args = Inr (p, [arg])" and "parse_request_uri arg = Inr u"
    and "url_scheme u \<in> {''http'', ''https''}" and "url_host u \<noteq> []"
    and "net w (url_string u) = Refused e"
    and "p \<noteq> []" and "p \<notin> locked w" and "fs w p = None"
  shows "fst (main prog args w) = 1 \<and> fs (snd (main prog args w)) = (fs w)(p \<mapsto> RegFile [])
         \<and> requests (snd (main prog args w)) = requests w @ [url_string u]"
  using assms
  by (simp add: main_defs getWriter_creates http_get_def Let_def)

theorem main_writes_body_to_new_file_witness:
  "main ''webfetch'' [''-o'', ''out.txt'', ''http://example.com/''] demo_world =
     (0, demo_world\<lparr>stdout := ''Valid output file. Using file out.txt\<newline>'',
                    fs := [''notes.txt'' \<mapsto> RegFile ''keep'', ''out.txt'' \<mapsto> RegFile ''hello\<newline>''],
                    requests := [''http://example.com/'']\<rparr>)"
proof -
  have f: "flag_parse [''-o'', ''out.txt'', ''http://example.com/''] = Inr (''out.txt'', [''http://example.com/''])"
    by code_simp
  have u: "parse_request_uri ''http://example.com/'' = Inr example_url" by code_simp
  have s: "url_string example_url = ''http://example.com/''" by code_simp
  show ?thesis
    using main_writes_body_to_new_file [OF f u, where w = demo_world and body = "''hello''" and prog = "''webfetch''"] s
    by (simp add: demo_world_def example_url_def)
qed

theorem main_rejects_wrong_arg_count_witness:
  "main ''webfetch'' [] demo_world = (1, println ''Url must be specified'' demo_world)"
proof -
  have f: "flag_parse [] = Inr ([], [])" by code_simp
  show ?thesis using main_rejects_wrong_arg_count [OF f] by simp
qed

theorem main_rejects_invalid_url_witness:
  "main ''webfetch'' [''not a url''] demo_world =
     (1, println (''parse '' @ go_quote ''not a url'' @ '': invalid URI for request'') demo_world)"
proof -
  have f: "flag_parse [''not a url''] = Inr ([], [''not a url''])" by code_simp
  have u: "parse_request_uri ''not a url'' = Inl (''parse '' @ go_quote ''not a url'' @ '': invalid URI for request'')"
    by code_simp
  show ?thesis by (rule main_rejects_invalid_url [OF f u])
qed

theorem main_refuses_existing_output_witness:
  "main ''webfetch'' [''-o'', ''notes.txt'', ''http://example.com/''] demo_world =
     (1, println ''The file already exists'' demo_world)"
proof -
  have f: "flag_parse [''-o'', ''notes.txt'', ''http://example.com/''] = Inr (''notes.txt'', [''http://example.com/''])"
    by code_simp
  have u: "parse_request_uri ''http://example.com/'' = Inr example_url" by code_simp
  show ?thesis
    by (rule main_refuses_existing_output [OF f u]) (simp_all add: demo_world_def)
qed

theorem main_transport_error_leaves_empty_file_witness:
  "fst (main ''webfetch'' [''-o'', ''out.txt'', ''http://unreachable.example/''] demo_world) = 1 \<and>
   fs (snd (main ''webfetch'' [''-o'', ''out.txt'', ''http://unreachable.example/''] demo_world)) =
     [''notes.txt'' \<mapsto> RegFile ''keep'', ''out.txt'' \<mapsto> RegFile []]"
proof -
  have f: "flag_parse [''-o'', ''out.txt'', ''http://unreachable.example/''] =
             Inr (''out.txt'', [''http://unreachable.example/''])"
    by code_simp
  have u: "parse_request_uri ''http://unreachable.example/'' = Inr unreachable_url" by code_simp
  have s: "url_string unreachable_url = ''http://unreachable.example/''" by code_simp
  show ?thesis
    using main_transport_error_leaves_empty_file [OF f u, where w = demo_world and e = "''dial tcp: connection refused''"] s
    by (simp add: demo_world_def unreachable_url_def)
qed

text \<open>C3. Whatever the arguments and the world, no file or directory that exists when \<open>main\<close> starts is changed or removed: the program never overwrites (spec 4.3).\<close>

theorem main_keeps_existing_files:
  assumes "main prog args w = (c, w')" and "fs w q = Some nd"
  shows "fs w' q = Some nd"
  using assms(1)
proof (cases rule: main_cases)
  case (no_writer opath arg u)
  then show ?thesis using getWriter_keeps_existing assms(2) by blast
next
  case (get_failed opath arg u wr w1 err w2)
  have "fs w1 q = Some nd" using getWriter_keeps_existing [OF get_failed(3) assms(2)] .
  with get_failed show ?thesis using http_get_frame [OF get_failed(4)] by simp
next
  case (read_failed opath arg u wr w1 resp w2 b err)
  have "fs w1 q = Some nd" using getWriter_keeps_existing [OF read_failed(3) assms(2)] .
  with read_failed show ?thesis using http_get_Inr [OF read_failed(4)] by simp
next
  case (written opath arg u wr w1 resp w2 content)
  have w1: "fs w1 q = Some nd" using getWriter_keeps_existing [OF written(3) assms(2)] .
  have "bw_dest wr \<noteq> OutFile q"
  proof
    assume "bw_dest wr = OutFile q"
    with getWriter_writer [OF written(3)] have "opath = q" "opath \<noteq> []" by (auto split: if_splits)
    with getWriter_fresh [OF written(3)] assms(2) show False by simp
  qed
  then have "fs (writeContents content wr w2) q = fs w2 q" by (rule writeContents_fs_other)
  with w1 written show ?thesis using http_get_Inr [OF written(4)] by (simp add: body_close_def)
qed (use assms(2) in \<open>simp_all add: eprint_def\<close>)

text \<open>C7. Every run that exits 0, other than a request for help, sent exactly one request and closed the response body it opened.\<close>

theorem main_success_sends_one_request:
  assumes "main prog args w = (0, w')" and "flag_parse args \<noteq> Inl ErrHelp"
  shows "\<exists>s. requests w' = requests w @ [s] \<and> open_bodies w' = open_bodies w"
  using assms(1)
proof (cases rule: main_cases)
  case (no_writer opath arg u)
  from getWriter_exit_code [OF no_writer(3)] show ?thesis by simp
next
  case (written opath arg u wr w1 resp w2 content)
  have r1: "requests w1 = requests w" "open_bodies w1 = open_bodies w"
    using getWriter_frame [OF written(3)] by simp_all
  have r2: "requests w2 = requests w1 @ [url_string u]" "open_bodies w2 = Suc (open_bodies w1)"
    using http_get_Inr [OF written(4)] by simp_all
  have r3: "requests (writeContents content wr w2) = requests w2"
    "open_bodies (writeContents content wr w2) = open_bodies w2"
    using writeContents_frame by simp_all
  show ?thesis
    using r1 r2 r3 written(7) by (intro exI [of _ "url_string u"]) (simp add: body_close_def)
next
  case help_asked
  with assms(2) show ?thesis by simp
next
  case (bad_flags e)
  from bad_flags(3) show ?thesis by simp
next
  case (wrong_nargs opath pos)
  from wrong_nargs(3) show ?thesis by simp
next
  case (bad_url opath arg err)
  from bad_url(3) show ?thesis by simp
next
  case (get_failed opath arg u wr w1 err w2)
  from get_failed(5) show ?thesis by simp
next
  case (read_failed opath arg u wr w1 resp w2 b err)
  from read_failed(6) show ?thesis by simp
qed

text \<open>C10. When reading the body fails, \<open>main\<close> exits 1 without closing the response body: \<open>os.Exit\<close> skips the deferred \<open>Close\<close> (spec 4.4 asks for the close on early failure).\<close>

theorem main_read_error_leaves_body_open:
  assumes "flag_parse args = Inr (opath, [arg])" and "parse_request_uri arg = Inr u"
    and "getWriter opath w = (Inr wr, w1)"
    and "url_scheme u \<in> {''http'', ''https''}" and "url_host u \<noteq> []"
    and "net w (url_string u) = Truncated b e"
  shows "fst (main prog args w) = 1 \<and> open_bodies (snd (main prog args w)) = Suc (open_bodies w)"
proof -
  have "net w1 = net w" "open_bodies w1 = open_bodies w" using getWriter_frame [OF assms(3)] by simp_all
  with assms(4-6) have "fetch_page u w1 = (Inr (Truncated b e), w1\<lparr>requests := requests w1 @ [url_string u],
                                              open_bodies := Suc (open_bodies w1)\<rparr>)"
    by (intro fetch_page_sent) auto
  with assms(1-3) \<open>open_bodies w1 = open_bodies w\<close> show ?thesis
    by (simp add: main_def run_main_def parse_command_line_ok validate_url_ok)
qed

text \<open>C9. Once the body is read, \<open>main\<close> exits 0 whatever the writes and the flush report: the destination receives only some prefix of the body and newline, possibly a strict one (a full disk, or standard output on a full device), and the status still says success. A closed pipe on standard output is a different story, outside the model: Go's runtime then kills the process with \<open>SIGPIPE\<close>.\<close>

theorem main_exit_zero_despite_write_errors:
  assumes "flag_parse args = Inr (opath, [arg])" and "parse_request_uri arg = Inr u"
    and "getWriter opath w = (Inr wr, w1)"
    and "url_scheme u \<in> {''http'', ''https''}" and "url_host u \<noteq> []"
    and "net w (url_string u) = Served body"
  shows "fst (main prog args w) = 0 \<and>
         (\<exists>X. prefix X (body @ ''\<newline>'') \<and>
              snd (main prog args w) = body_close (deliver (bw_dest wr) X
                 (w1\<lparr>requests := requests w1 @ [url_string u], open_bodies := Suc (open_bodies w1)\<rparr>)))"
proof -
  have "bw_buf wr = []" using getWriter_writer [OF assms(3)] by simp
  with writeContents_prefix [of body wr "w1\<lparr>requests := requests w1 @ [url_string u], open_bodies := Suc (open_bodies w1)\<rparr>"]
  show ?thesis using main_served [OF assms] by auto
qed

text \<open>C12. A positional argument without scheme that the request parser accepts (such as \<open>/index.html\<close>) passes validation; with \<open>-o p\<close>, \<open>main\<close> then creates the empty file \<open>p\<close>, sends no request and exits 1 only when \<open>http.Get\<close> refuses the scheme.\<close>

theorem main_relative_reference_creates_empty_file:
  assumes "flag_parse args = Inr (p, [arg])" and "parse_request_uri arg = Inr u"
    and "url_scheme u = []" and "p \<noteq> []" and "p \<notin> locked w" and "fs w p = None"
  shows "fst (main prog args w) = 1 \<and> fs (snd (main prog args w)) = (fs w)(p \<mapsto> RegFile [])
         \<and> requests (snd (main prog args w)) = requests w"
  using assms by (simp add: main_defs getWriter_creates http_get_def)

theorem main_keeps_existing_files_witness:
  "fs (snd (main ''webfetch'' [''-o'', ''out.txt'', ''http://example.com/''] demo_world)) ''notes.txt'' =
     Some (RegFile ''keep'')"
proof -
  have "fs demo_world ''notes.txt'' = Some (RegFile ''keep'')" by (simp add: demo_world_def)
  then show ?thesis
    by (rule main_keeps_existing_files [OF prod.collapse [symmetric]])
qed

theorem main_success_sends_one_request_witness:
  "\<exists>s. requests (snd (main ''webfetch'' [''http://example.com/''] demo_world)) = [s] \<and>
       open_bodies (snd (main ''webfetch'' [''http://example.com/''] demo_world)) = 0"
proof -
  have ok: "fst (main ''webfetch'' [''http://example.com/''] demo_world) = 0" by code_simp
  have f: "flag_parse [''http://example.com/''] \<noteq> Inl ErrHelp" by code_simp
  have "main ''webfetch'' [''http://example.com/''] demo_world =
          (0, snd (main ''webfetch'' [''http://example.com/''] demo_world))"
    using ok by (metis prod.collapse)
  from main_success_sends_one_request [OF this f] show ?thesis by (simp add: demo_world_def)
qed

theorem main_read_error_leaves_body_open_witness:
  "fst (main ''webfetch'' [''http://example.com/''] flaky_world) = 1 \<and>
   open_bodies (snd (main ''webfetch'' [''http://example.com/''] flaky_world)) = 1"
proof -
  have f: "flag_parse [''http://example.com/''] = Inr ([], [''http://example.com/''])" by code_simp
  have u: "parse_request_uri ''http://example.com/'' = Inr example_url" by code_simp
  show ?thesis
    using main_read_error_leaves_body_open [OF f u getWriter_stdout, where w = flaky_world and b = "''hel''"
            and e = "''unexpected EOF''" and prog = "''webfetch''"]
    by (simp add: flaky_world_def demo_world_def example_url_def)
qed

theorem main_exit_zero_despite_write_errors_witness:
  "fst (main ''webfetch'' [''-o'', ''out.txt'', ''http://example.com/''] full_disk_world) = 0 \<and>
   fs (snd (main ''webfetch'' [''-o'', ''out.txt'', ''http://example.com/''] full_disk_world)) ''out.txt'' =
     Some (RegFile ''he'')"
proof -
  have f: "flag_parse [''-o'', ''out.txt'', ''http://example.com/''] = Inr (''out.txt'', [''http://example.com/''])"
    by code_simp
  have u: "parse_request_uri ''http://example.com/'' = Inr example_url" by code_simp
  have s: "url_string example_url = ''http://example.com/''" by code_simp
  have gw: "getWriter ''out.txt'' full_disk_world = (Inr (bufio_new_writer (OutFile ''out.txt'')),
              println (''Valid output file. Using file '' @ ''out.txt'')
                (full_disk_world\<lparr>fs := (fs full_disk_world)(''out.txt'' \<mapsto> RegFile [])\<rparr>))"
    by (rule getWriter_creates) (simp_all add: full_disk_world_def demo_world_def)
  have "fst (main ''webfetch'' [''-o'', ''out.txt'', ''http://example.com/''] full_disk_world) = 0"
    using main_exit_zero_despite_write_errors [OF f u gw, where body = "''hello''"] s
    by (simp add: full_disk_world_def demo_world_def example_url_def)
  moreover have "fs (snd (main ''webfetch'' [''-o'', ''out.txt'', ''http://example.com/''] full_disk_world)) ''out.txt'' =
     Some (RegFile ''he'')"
    by code_simp
  ultimately show ?thesis ..
qed

theorem main_relative_reference_creates_empty_file_witness:
  "fst (main ''webfetch'' [''-o'', ''out.txt'', ''/index.html''] demo_world) = 1 \<and>
   fs (snd (main ''webfetch'' [''-o'', ''out.txt'', ''/index.html''] demo_world)) =
     [''notes.txt'' \<mapsto> RegFile ''keep'', ''out.txt'' \<mapsto> RegFile []] \<and>
   requests (snd (main ''webfetch'' [''-o'', ''out.txt'', ''/index.html''] demo_world)) = []"
proof -
  have f: "flag_parse [''-o'', ''out.txt'', ''/index.html''] = Inr (''out.txt'', [''/index.html''])"
    by code_simp
  have u: "parse_request_uri ''/index.html'' = Inr index_path_url" by code_simp
  show ?thesis
    using main_relative_reference_creates_empty_file [OF f u, where w = demo_world]
    by (simp add: demo_world_def index_path_url_def empty_url_def)
qed

text \<open>C16. The argument resolver reads the command lines of the CLI surface back into their parts,
  with no effect and no exit: \<open>url\<close> alone gives the empty output path (standard
  output) and the one positional \<open>url\<close>; \<open>-o p url\<close>, \<open>--o p url\<close> and
  \<open>-o=p url\<close> give the path \<open>p\<close> and \<open>url\<close>, for any \<open>url\<close> that does not
  look like a flag (spec 4.1, 6).\<close>

theorem parse_command_line_roundtrip:
  assumes "length u < 2 \<or> u ! 0 \<noteq> CHR ''-''"
  shows "parse_command_line prog [u] w = (Inr ([], [u]), w) \<and>
         parse_command_line prog [''-o'', p, u] w = (Inr (p, [u]), w) \<and>
         parse_command_line prog [''--o'', p, u] w = (Inr (p, [u]), w) \<and>
         parse_command_line prog [''-o='' @ p, u] w = (Inr (p, [u]), w)"
  using flag_parse_roundtrip [OF assms, of p] by (simp add: parse_command_line_ok)

theorem parse_command_line_roundtrip_witness:
  "parse_command_line ''webfetch'' [''-o'', ''out.txt'', ''http://example.com/''] demo_world =
     (Inr (''out.txt'', [''http://example.com/'']), demo_world)"
  using parse_command_line_roundtrip [where u = "''http://example.com/''" and p = "''out.txt''"
      and prog = "''webfetch''" and w = demo_world]
  by simp

text \<open>C17. The URL validator refuses every argument without a colon that does not start
  with \<open>/\<close> (other than \<open>*\<close>), the empty string and \<open>not a url\<close> among them:
  it prints the parser's error and ends the process with status 1 (spec 4.2).\<close>

theorem validate_url_rejects_schemeless:
  assumes "CHR '':'' \<notin> set s" and "take 1 s \<noteq> ''/''" and "s \<noteq> ''*''"
  shows "\<exists>e. validate_url s w = (Inl 1, println e w)"
proof -
  obtain e where "parse_request_uri s = Inl e"
    using parse_request_uri_rejects_schemeless [OF assms] by blast
  then show ?thesis by (auto simp: validate_url_def)
qed

theorem validate_url_rejects_schemeless_witness:
  "\<exists>e. validate_url ''not a url'' demo_world = (Inl 1, println e demo_world)"
  by (rule validate_url_rejects_schemeless) simp_all

text \<open>C18. The URL validator accepts every argument that starts with \<open>/\<close> and has no
  control byte and no \<open>%\<close>, as a URL with neither scheme nor host, and the
  process goes on: a relative reference passes validation (spec 4.2 says relative
  references fail).\<close>

theorem validate_url_accepts_path_only:
  assumes "\<not> contains_ctl s" and "CHR ''%'' \<notin> set s"
  shows "\<exists>u. validate_url (CHR ''/'' # s) w = (Inr u, w) \<and> url_scheme u = [] \<and> url_host u = []"
proof -
  obtain u where "parse_request_uri (CHR ''/'' # s) = Inr u" "url_scheme u = []" "url_host u = []"
    using parse_request_uri_accepts_path_only [OF assms] by blast
  then show ?thesis by (simp add: validate_url_ok)
qed

theorem validate_url_accepts_path_only_witness:
  "\<exists>u. validate_url ''/index.html'' demo_world = (Inr u, demo_world) \<and> url_scheme u = [] \<and> url_host u = []"
proof -
  have "\<not> contains_ctl ''index.html''" by (simp add: contains_ctl_def)
  from validate_url_accepts_path_only [OF this, where w = demo_world] show ?thesis by simp
qed

text \<open>C21. Whatever the arguments and the world, \<open>main\<close> sends at most one request, and only for the URL that the one positional argument parsed to: no request on a usage error, a flag error or an invalid URL (spec section 8).\<close>

theorem main_requests_validated_url:
  assumes "main prog args w = (c, w')"
  shows "requests w' = requests w \<or>
         (\<exists>opath arg u. flag_parse args = Inr (opath, [arg]) \<and> parse_request_uri arg = Inr u \<and>
            requests w' = requests w @ [url_string u])"
  using assms
proof (cases rule: main_cases)
  case (no_writer opath arg u)
  then show ?thesis using getWriter_frame [OF no_writer(3)] by simp
next
  case (get_failed opath arg u wr w1 err w2)
  have "requests w1 = requests w" using getWriter_frame [OF get_failed(3)] by simp
  then show ?thesis using get_failed http_get_requests [OF get_failed(4)] by auto
next
  case (read_failed opath arg u wr w1 resp w2 b err)
  have "requests w1 = requests w" using getWriter_frame [OF read_failed(3)] by simp
  then show ?thesis using read_failed http_get_Inr [OF read_failed(4)] by auto
next
  case (written opath arg u wr w1 resp w2 content)
  have "requests w1 = requests w" using getWriter_frame [OF written(3)] by simp
  then show ?thesis
    using written http_get_Inr [OF written(4)] writeContents_frame by (auto simp: body_close_def)
qed simp_all

theorem main_requests_validated_url_witness:
  "requests (snd (main ''webfetch'' [''not a url''] demo_world)) = requests demo_world \<or>
   (\<exists>opath arg u. flag_parse [''not a url''] = Inr (opath, [arg]) \<and> parse_request_uri arg = Inr u \<and>
      requests (snd (main ''webfetch'' [''not a url''] demo_world)) = requests demo_world @ [url_string u])"
  by (rule main_requests_validated_url [where c = "fst (main ''webfetch'' [''not a url''] demo_world)"])
     simp

text \<open>C22. The exit status of \<open>main\<close> is 0, 1 or 2, and it is 2 exactly when the flag package refuses the command line (anything but a request for help).\<close>

theorem main_exit_status:
  assumes "main prog args w = (c, w')"
  shows "c \<le> 2 \<and> (c = 2 \<longleftrightarrow> (\<exists>e. flag_parse args = Inl e \<and> e \<noteq> ErrHelp))"
  using assms
proof (cases rule: main_cases)
  case (no_writer opath arg u)
  then show ?thesis using getWriter_exit_code [OF no_writer(3)] by simp
qed auto

theorem main_exit_status_witness:
  "fst (main ''webfetch'' [''-x'', ''http://example.com/''] demo_world) = 2"
proof -
  have f: "flag_parse [''-x'', ''http://example.com/''] = Inl (NotDefined ''x'')" by code_simp
  from main_exit_status [where prog = "''webfetch''" and args = "[''-x'', ''http://example.com/'']"
      and w = demo_world, OF prod.collapse [symmetric]] f
  show ?thesis by simp
qed

text \<open>C20. Parse and print round trip: the URL validator accepts every \<open>scheme://host/path\<close> whose scheme is lower-case letters and whose host and path use unreserved characters, with exactly these parts, and \<open>String()\<close> gives back the text the user typed, so \<open>http.Get\<close> requests the URL given on the command line.\<close>

theorem validate_url_roundtrip:
  assumes "sch \<noteq> []" "\<forall>c \<in> set sch. 97 \<le> byte c \<and> byte c \<le> 122"
    and "host \<noteq> []" "\<forall>c \<in> set host. is_alnum c \<or> c \<in> set ''-._~''"
    and "path = [] \<or> hd path = CHR ''/''" "\<forall>c \<in> set path. is_alnum c \<or> c \<in> set ''-._~/''"
  shows "\<exists>u. validate_url (sch @ ''://'' @ host @ path) w = (Inr u, w) \<and>
             url_scheme u = sch \<and> url_host u = host \<and> url_path u = path \<and>
             url_string u = sch @ ''://'' @ host @ path"
  using parse_request_uri_simple [OF assms] url_string_simple [OF assms(1,3-6)]
  by (simp add: validate_url_ok empty_url_def)

theorem validate_url_roundtrip_witness:
  "\<exists>u. validate_url ''https://example.com/index.html'' demo_world = (Inr u, demo_world) \<and>
       url_scheme u = ''https'' \<and> url_host u = ''example.com'' \<and> url_path u = ''/index.html'' \<and>
       url_string u = ''https://example.com/index.html''"
  using validate_url_roundtrip [where sch = "''https''" and host = "''example.com''" and path = "''/index.html''"
      and w = demo_world]
  by (simp add: is_alnum_def)



text \<open>C19. End to end, for the URLs users type: for \<open>scheme://host/path\<close> with scheme \<open>http\<close> or \<open>https\<close> and a host and path of unreserved characters, \<open>webfetch URL\<close> on an unlimited standard output exits 0, prints the stdout notice, then exactly the body the server serves at that very URL and one newline, and sends exactly one request, for that URL (spec section 8, fourth property, with nothing assumed of the parsers).\<close>

theorem main_fetches_simple_url:
  assumes sch: "sch \<in> {''http'', ''https''}"
    and host: "host \<noteq> []" "\<forall>c \<in> set host. is_alnum c \<or> c \<in> set ''-._~''"
    and path: "path = [] \<or> hd path = CHR ''/''" "\<forall>c \<in> set path. is_alnum c \<or> c \<in> set ''-._~/''"
    and served: "net w (sch @ ''://'' @ host @ path) = Served body" and room: "stdout_room w = None"
  shows "main prog [sch @ ''://'' @ host @ path] w =
           (0, w\<lparr>stdout := stdout w @ ''Empty output. Using os.Stdout\<newline>'' @ body @ ''\<newline>'',
                 requests := requests w @ [sch @ ''://'' @ host @ path]\<rparr>)"
proof -
  define s where "s = sch @ ''://'' @ host @ path"
  define u where "u = empty_url\<lparr>url_scheme := sch, url_host := host, url_path := path\<rparr>"
  have letters: "sch \<noteq> []" "\<forall>c \<in> set sch. 97 \<le> byte c \<and> byte c \<le> 122" using sch by auto
  have "s ! 0 \<noteq> CHR ''-''" using sch by (auto simp: s_def)
  then have f: "flag_parse [s] = Inr ([], [s])" using flag_parse_roundtrip [of s] by simp
  have p: "parse_request_uri s = Inr u"
    using parse_request_uri_simple [OF letters host path] by (simp add: s_def u_def)
  have str: "url_string u = s" using url_string_simple [OF letters(1) host path] by (simp add: s_def u_def)
  have "url_scheme u \<in> {''http'', ''https''}" "url_host u \<noteq> []"
    using sch host(1) by (simp_all add: u_def empty_url_def)
  moreover have "net w (url_string u) = Served body" using served str by (simp add: s_def)
  ultimately have "main prog [s] w =
      (0, body_close (writeContents body (bufio_new_writer Stdout)
            ((println ''Empty output. Using os.Stdout'' w)\<lparr>requests := requests w @ [s],
               open_bodies := Suc (open_bodies w)\<rparr>)))"
    using main_served [OF f p getWriter_stdout] str by simp
  then show ?thesis
    using room
    by (simp add: s_def writeContents_unlimited room_of_def println_def os_write_def deliver_def body_close_def)
qed

theorem main_fetches_simple_url_witness:
  "main ''webfetch'' [''http://example.com/''] demo_world =
     (0, demo_world\<lparr>stdout := ''Empty output. Using os.Stdout\<newline>hello\<newline>'',
                    requests := [''http://example.com/'']\<rparr>)"
  using main_fetches_simple_url [where sch = "''http''" and host = "''example.com''" and path = "''/''"
      and w = demo_world and body = "''hello''" and prog = "''webfetch''"]
  by (simp add: is_alnum_def demo_world_def)

end
